theory Spec2Isabelle
  imports Main "HOL-Library.Word"
begin

section \<open>The request-counting and write-logging service (main.go)\<close>

text \<open>
  The service keeps two process-wide 64-bit counters and, on a write request, stores a
  rendered text report in a file named after the current second. The handlers are
  embedded as functions from the process state, the request and the answers of the
  operating system and the Go runtime during that request to the new process state and
  the HTTP response. The calls to the logger only print to standard output and are left
  out.
\<close>

subsection \<open>Data\<close>

type_synonym int64 = "64 word"
type_synonym uint64 = "64 word"

text \<open>Errors are carried by their message, as \<^verbatim>\<open>%v\<close> prints them.\<close>

type_synonym error = string

text \<open>
  What a handler does to the counters and to the file system, in the order in which it
  does it.
\<close>

datatype event =
    AddRequestCount
  | AddWriteCount
  | MkdirAll string
  | OpenFile string
  | WriteString string nat
  | Close string

text \<open>
  The process state: the two counters, the process environment, the regular files of the
  file system (path to content), the paths of the file handles that are open, and the
  journal of effects.
\<close>

record world =
  requestCount :: int64
  writeCount :: int64
  environ :: "string \<rightharpoonup> string"
  files :: "string \<rightharpoonup> string"
  handles :: "string list"
  journal :: "event list"

text \<open>The fields of \<^verbatim>\<open>*http.Request\<close> that the handlers read.\<close>

record request =
  Method :: string
  URL_Path :: string
  RemoteAddr :: string
  UserAgent :: string

text \<open>A wall-clock reading, broken down in its own time zone.\<close>

record time =
  Year :: int
  Month :: int
  Day :: int
  Hour :: int
  Minute :: int
  Second :: int
  ZoneOffset :: int

text \<open>
  The answers of the operating system and of the runtime during one request. An error
  result is \<open>Some\<close> of its message. \<open>write_result\<close> is \<open>None\<close> when all bytes
  were written, and \<open>Some (n, e)\<close> when the write stopped with error \<open>e\<close> after
  \<open>n\<close> bytes. \<open>now1\<close>, \<open>now2\<close> and \<open>now3\<close> are the successive readings of
  \<^verbatim>\<open>time.Now()\<close>; \<open>uptime\<close> is the string of
  \<^verbatim>\<open>time.Since(startTime).Round(time.Second)\<close>.
\<close>

record sys =
  mkdir_result :: "error option"
  open_result :: "error option"
  write_result :: "(nat \<times> error) option"
  hostname_result :: "error + string"
  encode_result :: "error option"
  now1 :: time
  now2 :: time
  now3 :: time
  uptime :: string
  go_version :: string
  num_goroutine :: int
  mem_alloc :: uint64

record AppInfo =
  AppName :: string
  Env :: string
  DBUser :: string
  Version :: string
  Hostname :: string
  Timestamp :: time

record Stats =
  Uptime :: string
  TotalRequests :: int64
  WriteOps :: int64
  GoVersion :: string
  NumGoroutines :: int
  MemoryAllocMB :: uint64
  ServerTime :: string

text \<open>
  A response body is plain text or the JSON encoding of one of the two response records.
\<close>

datatype payload =
    Plain string
  | Json_AppInfo AppInfo
  | Json_Stats Stats

record response =
  status :: nat
  header :: "string \<rightharpoonup> string"
  body :: payload

subsection \<open>Formatting\<close>

text \<open>Decimal digits of a natural number, most significant first.\<close>

fun utoa :: "nat \<Rightarrow> string" where
  "utoa n = (if n < 10 then [char_of (48 + n)]
             else utoa (n div 10) @ [char_of (48 + n mod 10)])"

declare utoa.simps [simp del]

text \<open>The verb \<^verbatim>\<open>%d\<close> on an integer.\<close>

definition fmt_d :: "int \<Rightarrow> string" where
  "fmt_d x = (if x < 0 then CHR ''-'' # utoa (nat (- x)) else utoa (nat x))"

text \<open>
  \<^verbatim>\<open>appendInt\<close> of package time: the sign, then the decimal digits padded with
  zeros on the left to \<open>width\<close>.
\<close>

definition appendInt :: "int \<Rightarrow> nat \<Rightarrow> string" where
  "appendInt x width =
     (let u = nat \<bar>x\<bar>; ds = utoa u
      in (if x < 0 then ''-'' else '''') @ replicate (width - length ds) CHR ''0'' @ ds)"

text \<open>
  \<^verbatim>\<open>Time.Format\<close> with the layout \<^verbatim>\<open>20060102-150405\<close>: year (4), month (2),
  day (2), a dash, hour (2), minute (2), second (2).
\<close>

definition Format_20060102_150405 :: "time \<Rightarrow> string" where
  "Format_20060102_150405 t =
     appendInt (Year t) 4 @ appendInt (Month t) 2 @ appendInt (Day t) 2 @ ''-'' @
     appendInt (Hour t) 2 @ appendInt (Minute t) 2 @ appendInt (Second t) 2"

text \<open>
  \<^verbatim>\<open>Time.Format(time.RFC3339)\<close>, layout \<^verbatim>\<open>2006-01-02T15:04:05Z07:00\<close>: the zone
  is \<^verbatim>\<open>Z\<close> for UTC and otherwise the signed offset in hours and minutes.
\<close>

definition Format_zone :: "int \<Rightarrow> string" where
  "Format_zone off =
     (if off = 0 then ''Z''
      else let zone = (if off < 0 then - (\<bar>off\<bar> div 60) else off div 60);
               a = \<bar>zone\<bar>
           in (if zone < 0 then ''-'' else ''+'') @
              appendInt (a div 60) 2 @ '':'' @ appendInt (a mod 60) 2)"

definition Format_RFC3339 :: "time \<Rightarrow> string" where
  "Format_RFC3339 t =
     appendInt (Year t) 4 @ ''-'' @ appendInt (Month t) 2 @ ''-'' @ appendInt (Day t) 2 @
     ''T'' @ appendInt (Hour t) 2 @ '':'' @ appendInt (Minute t) 2 @ '':'' @
     appendInt (Second t) 2 @ Format_zone (ZoneOffset t)"

text \<open>
  \<^verbatim>\<open>fmt.Sprintf\<close> for the verbs the program uses. An argument is a string or an
  integer. A verb that does not fit its argument, a missing argument and left-over
  arguments, which the program never produces, are rendered by a marker.
\<close>

datatype arg = S string | D int

definition fmt_verb :: "char \<Rightarrow> arg \<Rightarrow> string" where
  "fmt_verb v a =
     (case a of
        S x \<Rightarrow> (if v = CHR ''s'' \<or> v = CHR ''v'' then x else ''%!'' @ [v] @ ''(string='' @ x @ '')'')
      | D n \<Rightarrow> (if v = CHR ''d'' \<or> v = CHR ''v'' then fmt_d n else ''%!'' @ [v] @ ''(int='' @ fmt_d n @ '')''))"

fun Sprintf :: "string \<Rightarrow> arg list \<Rightarrow> string" where
  "Sprintf [] args = (if args = [] then [] else ''%!(EXTRA)'')"
| "Sprintf [c] args =
     (if c = CHR ''%'' then ''%!(NOVERB)'' @ Sprintf [] args else c # Sprintf [] args)"
| "Sprintf (c # v # rest) args =
     (if c \<noteq> CHR ''%'' then c # Sprintf (v # rest) args
      else if v = CHR ''%'' then CHR ''%'' # Sprintf rest args
      else (case args of
              [] \<Rightarrow> ''%!'' @ [v] @ ''(MISSING)'' @ Sprintf rest []
            | a # as \<Rightarrow> fmt_verb v a @ Sprintf rest as))"

declare Sprintf.simps [simp del]

subsection \<open>Paths\<close>

text \<open>
  \<^verbatim>\<open>filepath.Clean\<close> on a slash-separated path: the path is cut at the separators,
  empty and \<^verbatim>\<open>.\<close> elements are dropped, a \<^verbatim>\<open>..\<close> removes the element before
  it (at the root it is dropped, at the start of a relative path it stays), and the
  elements are put together again. The empty result is \<^verbatim>\<open>.\<close>.
\<close>

fun split_sep :: "string \<Rightarrow> string list" where
  "split_sep [] = [[]]"
| "split_sep (c # cs) =
     (if c = CHR ''/'' then [] # split_sep cs
      else (case split_sep cs of [] \<Rightarrow> [[c]] | x # xs \<Rightarrow> (c # x) # xs))"

fun clean_elems :: "bool \<Rightarrow> string list \<Rightarrow> string list \<Rightarrow> string list" where
  "clean_elems rooted acc [] = rev acc"
| "clean_elems rooted acc (e # es) =
     (if e = [] \<or> e = ''.'' then clean_elems rooted acc es
      else if e = ''..'' then
        (case acc of
           [] \<Rightarrow> if rooted then clean_elems rooted [] es else clean_elems rooted [''..''] es
         | a # as \<Rightarrow> if a = ''..'' then clean_elems rooted (''..'' # acc) es
                     else clean_elems rooted as es)
      else clean_elems rooted (e # acc) es)"

fun join_sep :: "string list \<Rightarrow> string" where
  "join_sep [] = []"
| "join_sep [e] = e"
| "join_sep (e # es) = e @ ''/'' @ join_sep es"

definition Clean :: "string \<Rightarrow> string" where
  "Clean path =
     (let rooted = (path \<noteq> [] \<and> hd path = CHR ''/'');
          out = join_sep (clean_elems rooted [] (split_sep path))
      in if rooted then CHR ''/'' # out else if out = [] then ''.'' else out)"

text \<open>\<^verbatim>\<open>filepath.Join\<close> of two elements.\<close>

definition filepath_Join :: "string \<Rightarrow> string \<Rightarrow> string" where
  "filepath_Join a b =
     (if a \<noteq> [] then Clean (a @ ''/'' @ b) else if b \<noteq> [] then Clean b else [])"

subsection \<open>The environment resolver\<close>

text \<open>\<^verbatim>\<open>os.Getenv\<close>: the value of the variable, empty when it is not set.\<close>

definition os_Getenv :: "world \<Rightarrow> string \<Rightarrow> string" where
  "os_Getenv w key = (case environ w key of None \<Rightarrow> [] | Some v \<Rightarrow> v)"

definition getEnvOrDefault :: "world \<Rightarrow> string \<Rightarrow> string \<Rightarrow> string" where
  "getEnvOrDefault w key defaultValue =
     (let value = os_Getenv w key in if value \<noteq> [] then value else defaultValue)"

subsection \<open>Counters, operating system and response writer\<close>

definition atomic_AddRequestCount :: "world \<Rightarrow> world" where
  "atomic_AddRequestCount w =
     w\<lparr>requestCount := requestCount w + 1, journal := journal w @ [AddRequestCount]\<rparr>"

definition atomic_AddWriteCount :: "world \<Rightarrow> world" where
  "atomic_AddWriteCount w =
     w\<lparr>writeCount := writeCount w + 1, journal := journal w @ [AddWriteCount]\<rparr>"

text \<open>\<^verbatim>\<open>os.Hostname\<close> returns the empty name together with its error.\<close>

definition os_Hostname :: "sys \<Rightarrow> string \<times> error option" where
  "os_Hostname s = (case hostname_result s of Inl e \<Rightarrow> ([], Some e) | Inr h \<Rightarrow> (h, None))"

text \<open>
  \<^verbatim>\<open>os.MkdirAll\<close>: directories are not part of the state, so the call is entered in
  the journal and answers what the system answers.
\<close>

definition os_MkdirAll :: "world \<Rightarrow> string \<Rightarrow> sys \<Rightarrow> world \<times> error option" where
  "os_MkdirAll w path s = (w\<lparr>journal := journal w @ [MkdirAll path]\<rparr>, mkdir_result s)"

text \<open>
  \<^verbatim>\<open>os.OpenFile\<close> with \<^verbatim>\<open>O_CREATE|O_WRONLY|O_TRUNC\<close>: when it succeeds the file
  exists and is empty, and a handle on it is open; when it fails the files are as before.
\<close>

definition os_OpenFile :: "world \<Rightarrow> string \<Rightarrow> sys \<Rightarrow> world \<times> error option" where
  "os_OpenFile w path s =
     (case open_result s of
        Some e \<Rightarrow> (w\<lparr>journal := journal w @ [OpenFile path]\<rparr>, Some e)
      | None \<Rightarrow> (w\<lparr>files := (files w)(path \<mapsto> []),
                    handles := path # handles w,
                    journal := journal w @ [OpenFile path]\<rparr>, None))"

text \<open>
  \<^verbatim>\<open>f.WriteString\<close> on a handle at offset 0: the first \<open>k\<close> bytes of the file are
  replaced by the first \<open>k\<close> bytes of the data, where \<open>k\<close> is all of the data when the
  write succeeds and the number of bytes written before the error otherwise.
\<close>

definition overwrite :: "string \<Rightarrow> nat \<Rightarrow> string \<Rightarrow> string" where
  "overwrite old k data = take k data @ drop (min k (length data)) old"

definition f_WriteString :: "world \<Rightarrow> string \<Rightarrow> string \<Rightarrow> sys \<Rightarrow> world \<times> error option" where
  "f_WriteString w path data s =
     (let old = (case files w path of None \<Rightarrow> [] | Some c \<Rightarrow> c)
      in case write_result s of
           None \<Rightarrow>
             (w\<lparr>files := (files w)(path \<mapsto> overwrite old (length data) data),
                journal := journal w @ [WriteString path (length data)]\<rparr>, None)
         | Some (n, e) \<Rightarrow>
             (w\<lparr>files := (files w)(path \<mapsto> overwrite old n data),
                journal := journal w @ [WriteString path (min n (length data))]\<rparr>, Some e))"

definition f_Close :: "world \<Rightarrow> string \<Rightarrow> world" where
  "f_Close w path =
     w\<lparr>handles := remove1 path (handles w), journal := journal w @ [Close path]\<rparr>"

text \<open>A response writer nothing has been written to answers 200 with an empty body.\<close>

definition new_response :: response where
  "new_response = \<lparr>status = 200, header = Map.empty, body = Plain []\<rparr>"

definition header_Set :: "response \<Rightarrow> string \<Rightarrow> string \<Rightarrow> response" where
  "header_Set resp k v = resp\<lparr>header := (header resp)(k \<mapsto> v)\<rparr>"

definition w_Write :: "response \<Rightarrow> payload \<Rightarrow> response" where
  "w_Write resp p = resp\<lparr>body := p\<rparr>"

text \<open>\<^verbatim>\<open>http.Error\<close>: plain text, the status code, the message and a newline.\<close>

definition http_Error :: "response \<Rightarrow> string \<Rightarrow> nat \<Rightarrow> response" where
  "http_Error resp msg code =
     (let resp = header_Set resp ''Content-Type'' ''text/plain; charset=utf-8'';
          resp = header_Set resp ''X-Content-Type-Options'' ''nosniff''
      in resp\<lparr>status := code, body := Plain (msg @ ''\<newline>'')\<rparr>)"

definition StatusInternalServerError :: nat where
  "StatusInternalServerError = 500"

definition getMemoryUsageMB :: "sys \<Rightarrow> uint64" where
  "getMemoryUsageMB s = mem_alloc s div 1024 div 1024"

subsection \<open>The write handler\<close>

definition logContent_banner :: string where
  "logContent_banner =
     ''========================================\<newline>'' @
     [CHR 0xF0, CHR 0x9F, CHR 0x9A, CHR 0x80] @ '' OpenShift Go Monolith - Volume Write Log\<newline>'' @
     ''========================================\<newline>'' @
     ''\<newline>''"

definition logContent_fields :: string where
  "logContent_fields =
     [CHR 0xE2, CHR 0x8F, CHR 0xB0] @ '' Timestamp:        %s\<newline>'' @
     [CHR 0xF0, CHR 0x9F, CHR 0x94, CHR 0xA2] @ '' Operation Number: %d\<newline>'' @
     [CHR 0xF0, CHR 0x9F, CHR 0x93, CHR 0xA6] @ '' Application:      %s\<newline>'' @
     [CHR 0xF0, CHR 0x9F, CHR 0x8C, CHR 0x8D] @ '' Environment:      %s\<newline>'' @
     [CHR 0xF0, CHR 0x9F, CHR 0x8F, CHR 0xA0] @ '' Hostname:         %s\<newline>'' @
     [CHR 0xF0, CHR 0x9F, CHR 0x8C, CHR 0x90] @ '' Client IP:        %s\<newline>'' @
     [CHR 0xF0, CHR 0x9F, CHR 0x90, CHR 0xB9] @ '' Go Version:       %s\<newline>'' @
     [CHR 0xF0, CHR 0x9F, CHR 0x93, CHR 0x8A] @ '' Total Requests:   %d\<newline>'' @
     [CHR 0xE2, CHR 0x8F, CHR 0xB1, CHR 0xEF, CHR 0xB8, CHR 0x8F] @ ''  Uptime:           %s\<newline>''"

definition logContent_details :: string where
  "logContent_details =
     ''\<newline>'' @
     ''========================================\<newline>'' @
     [CHR 0xF0, CHR 0x9F, CHR 0x93, CHR 0x9D] @ '' Log Entry Details\<newline>'' @
     ''========================================\<newline>'' @
     ''\<newline>'' @
     ''This log file was created as part of write operation #%d.\<newline>'' @
     ''The application successfully wrote data to the persistent volume.\<newline>'' @
     ''No cap, this is bussin fr fr! '' @ [CHR 0xF0, CHR 0x9F, CHR 0x92, CHR 0xAF] @ ''\<newline>'' @
     ''\<newline>'' @
     [CHR 0xF0, CHR 0x9F, CHR 0x96, CHR 0xA5, CHR 0xEF, CHR 0xB8, CHR 0x8F] @ ''  System Information:\<newline>'' @
     ''- Number of Goroutines: %d\<newline>'' @
     ''- Memory Allocated: %d MB\<newline>'' @
     ''- Status: Running smooth like butter '' @ [CHR 0xF0, CHR 0x9F, CHR 0xA7, CHR 0x88] @ ''\<newline>'' @
     ''\<newline>'' @
     [CHR 0xF0, CHR 0x9F, CHR 0x93, CHR 0xA1] @ '' Request Information:\<newline>'' @
     ''- Method: %s\<newline>'' @
     ''- Path: %s\<newline>'' @
     ''- User Agent: %s\<newline>'' @
     ''- Remote Address: %s\<newline>'' @
     ''\<newline>'' @
     [CHR 0xF0, CHR 0x9F, CHR 0x92, CHR 0xAD] @ '' Vibes: Immaculate '' @ [CHR 0xE2, CHR 0x9C, CHR 0xA8] @ ''\<newline>'' @
     [CHR 0xF0, CHR 0x9F, CHR 0x8E, CHR 0xAF] @ '' Status: Mission accomplished, chief! \<newline>'' @
     [CHR 0xF0, CHR 0x9F, CHR 0x94, CHR 0xA5] @ '' Performance: Absolutely slaying rn\<newline>'' @
     ''\<newline>'' @
     ''========================================\<newline>'' @
     [CHR 0xE2, CHR 0x9C, CHR 0x85] @ '' End of Log - Stay hydrated! '' @ [CHR 0xF0, CHR 0x9F, CHR 0x92, CHR 0xA7] @ ''\<newline>'' @
     ''========================================\<newline>''"

text \<open>The format string of lines 112 to 152, cut after its fourth and thirteenth line.\<close>

definition logContent_format :: string where
  "logContent_format = logContent_banner @ logContent_fields @ logContent_details"

definition response_format :: string where
  "response_format =
     [CHR 0xE2, CHR 0x9C, CHR 0x93] @ '' Data written to volume successfully\<newline>'' @
     ''\<newline>'' @
     [CHR 0xF0, CHR 0x9F, CHR 0x93, CHR 0x81] @ '' File: %s\<newline>'' @
     [CHR 0xF0, CHR 0x9F, CHR 0x94, CHR 0xA2] @ '' Operation: #%d\<newline>'' @
     [CHR 0xE2, CHR 0x8F, CHR 0xB0] @ '' Timestamp: %s\<newline>'' @
     [CHR 0xF0, CHR 0x9F, CHR 0x93, CHR 0x8F] @ '' Size: %d bytes\<newline>'' @
     ''\<newline>'' @
     [CHR 0xF0, CHR 0x9F, CHR 0x93, CHR 0x82] @ '' Log directory: %s\<newline>'' @
     ''\<newline>'' @
     [CHR 0xF0, CHR 0x9F, CHR 0x92, CHR 0xAF] @ '' Status: Absolutely fire! No printer, just facts! '' @ [CHR 0xF0, CHR 0x9F, CHR 0x94, CHR 0xA5]"

text \<open>Lines 108 to 169: the rendered report, from the state after both increments.\<close>

definition logContent_of :: "world \<Rightarrow> request \<Rightarrow> sys \<Rightarrow> string" where
  "logContent_of w r s =
     (let (hostname, _) = os_Hostname s;
          appName = getEnvOrDefault w ''APP_NAME'' ''OpenShift Go Monolith'';
          env = getEnvOrDefault w ''APP_ENV'' ''development''
      in Sprintf logContent_format
           [S (Format_RFC3339 (now2 s)),
            D (sint (writeCount w)),
            S appName,
            S env,
            S hostname,
            S (RemoteAddr r),
            S (go_version s),
            D (sint (requestCount w)),
            S (uptime s),
            D (sint (writeCount w)),
            D (num_goroutine s),
            D (uint (getMemoryUsageMB s)),
            S (Method r),
            S (URL_Path r),
            S (UserAgent r),
            S (RemoteAddr r)])"

text \<open>Lines 181 to 195: the confirmation sent back after a successful write.\<close>

definition response_of :: "world \<Rightarrow> sys \<Rightarrow> string \<Rightarrow> string \<Rightarrow> string \<Rightarrow> string" where
  "response_of w s filename logContent logDir =
     Sprintf response_format
       [S filename,
        D (sint (writeCount w)),
        S (Format_RFC3339 (now3 s)),
        D (int (length logContent)),
        S logDir]"

definition writeHandler :: "world \<Rightarrow> request \<Rightarrow> sys \<Rightarrow> world \<times> response" where
  "writeHandler w r s =
     (let w = atomic_AddRequestCount w;
          w = atomic_AddWriteCount w;
          logDir = ''./data/log'';
          (w, err) = os_MkdirAll w logDir s
      in case err of
           Some e \<Rightarrow>
             (w, http_Error new_response
                   (Sprintf ''Failed to create log directory: %v'' [S e])
                   StatusInternalServerError)
         | None \<Rightarrow>
             (let timestamp = Format_20060102_150405 (now1 s);
                  filename = Sprintf ''%s-log.txt'' [S timestamp];
                  filepath = filepath_Join logDir filename;
                  (w, err) = os_OpenFile w filepath s
              in case err of
                   Some e \<Rightarrow>
                     (w, http_Error new_response
                           (Sprintf ''Failed to create log file: %v'' [S e])
                           StatusInternalServerError)
                 | None \<Rightarrow>
                     (let logContent = logContent_of w r s;
                          (w, err) = f_WriteString w filepath logContent s
                      in case err of
                           Some e \<Rightarrow>
                             (f_Close w filepath,
                              http_Error new_response
                                (Sprintf ''Failed to write log content: %v'' [S e])
                                StatusInternalServerError)
                         | None \<Rightarrow>
                             (let response = response_of w s filename logContent logDir
                              in (f_Close w filepath,
                                  w_Write new_response (Plain response))))))"

subsection \<open>Two write requests that overlap\<close>

text \<open>
  The server runs every request in its own goroutine, and the write handler takes no
  lock. To follow two requests whose runs overlap, the handler is cut where it has
  opened the file: lines 76 to 105 up to the open, which either end the request with a
  response or hand on the file name and the path of the open handle, and lines 108 to
  198 from there, with the deferred \<^verbatim>\<open>Close\<close>.
\<close>

definition writeHandler_open ::
  "world \<Rightarrow> request \<Rightarrow> sys \<Rightarrow> world \<times> (response + string \<times> string)" where
  "writeHandler_open w r s =
     (let w = atomic_AddRequestCount w;
          w = atomic_AddWriteCount w;
          logDir = ''./data/log'';
          (w, err) = os_MkdirAll w logDir s
      in case err of
           Some e \<Rightarrow>
             (w, Inl (http_Error new_response
                        (Sprintf ''Failed to create log directory: %v'' [S e])
                        StatusInternalServerError))
         | None \<Rightarrow>
             (let timestamp = Format_20060102_150405 (now1 s);
                  filename = Sprintf ''%s-log.txt'' [S timestamp];
                  filepath = filepath_Join logDir filename;
                  (w, err) = os_OpenFile w filepath s
              in case err of
                   Some e \<Rightarrow>
                     (w, Inl (http_Error new_response
                                (Sprintf ''Failed to create log file: %v'' [S e])
                                StatusInternalServerError))
                 | None \<Rightarrow> (w, Inr (filename, filepath))))"

definition writeHandler_write ::
  "world \<Rightarrow> request \<Rightarrow> sys \<Rightarrow> string \<Rightarrow> string \<Rightarrow> world \<times> response" where
  "writeHandler_write w r s filename filepath =
     (let logDir = ''./data/log'';
          logContent = logContent_of w r s;
          (w, err) = f_WriteString w filepath logContent s
      in case err of
           Some e \<Rightarrow>
             (f_Close w filepath,
              http_Error new_response
                (Sprintf ''Failed to write log content: %v'' [S e])
                StatusInternalServerError)
         | None \<Rightarrow>
             (let response = response_of w s filename logContent logDir
              in (f_Close w filepath, w_Write new_response (Plain response))))"

text \<open>
  One way two requests A and B can overlap: A runs up to its open, then B runs up to its
  open, then A renders, writes and closes, then B does. A request that ends before its
  open leaves the other one to run alone. The result is the final state and the
  responses to A and to B.
\<close>

definition overlap ::
  "world \<Rightarrow> request \<Rightarrow> sys \<Rightarrow> request \<Rightarrow> sys \<Rightarrow> world \<times> response \<times> response" where
  "overlap w rA sA rB sB =
     (case writeHandler_open w rA sA of
        (w, Inl respA) \<Rightarrow>
          (let (w, respB) = writeHandler w rB sB in (w, respA, respB))
      | (w, Inr (filenameA, filepathA)) \<Rightarrow>
          (case writeHandler_open w rB sB of
             (w, Inl respB) \<Rightarrow>
               (let (w, respA) = writeHandler_write w rA sA filenameA filepathA
                in (w, respA, respB))
           | (w, Inr (filenameB, filepathB)) \<Rightarrow>
               (let (w, respA) = writeHandler_write w rA sA filenameA filepathA;
                    (w, respB) = writeHandler_write w rB sB filenameB filepathB
                in (w, respA, respB))))"

subsection \<open>The info, health and stats handlers\<close>

text \<open>
  \<^verbatim>\<open>json.NewEncoder(w).Encode\<close> either writes the encoding of the record or fails
  before anything is written.
\<close>

definition infoHandler :: "world \<Rightarrow> request \<Rightarrow> sys \<Rightarrow> world \<times> response" where
  "infoHandler w r s =
     (let w = atomic_AddRequestCount w;
          (hostname, err) = os_Hostname s;
          hostname = (if err \<noteq> None then ''unknown'' else hostname);
          info = \<lparr>AppName = getEnvOrDefault w ''APP_NAME'' ''OpenShift Go Monolith'',
                  Env = getEnvOrDefault w ''APP_ENV'' ''development'',
                  DBUser = getEnvOrDefault w ''DB_USER'' ''not_configured'',
                  Version = ''1.1.0'',
                  Hostname = hostname,
                  Timestamp = now1 s\<rparr>;
          resp = header_Set new_response ''Content-Type'' ''application/json''
      in case encode_result s of
           Some e \<Rightarrow> (w, http_Error resp ''Internal server error'' StatusInternalServerError)
         | None \<Rightarrow> (w, w_Write resp (Json_AppInfo info)))"

definition healthHandler :: "world \<Rightarrow> request \<Rightarrow> sys \<Rightarrow> world \<times> response" where
  "healthHandler w r s =
     (let w = atomic_AddRequestCount w
      in (w, w_Write new_response (Plain ''OK'')))"

definition statsHandler :: "world \<Rightarrow> request \<Rightarrow> sys \<Rightarrow> world \<times> response" where
  "statsHandler w r s =
     (let w = atomic_AddRequestCount w;
          stats = \<lparr>Uptime = uptime s,
                   TotalRequests = requestCount w,
                   WriteOps = writeCount w,
                   GoVersion = go_version s,
                   NumGoroutines = num_goroutine s,
                   MemoryAllocMB = getMemoryUsageMB s,
                   ServerTime = Format_RFC3339 (now1 s)\<rparr>;
          resp = header_Set new_response ''Content-Type'' ''application/json''
      in case encode_result s of
           Some e \<Rightarrow> (w, http_Error resp ''Internal server error'' StatusInternalServerError)
         | None \<Rightarrow> (w, w_Write resp (Json_Stats stats)))"

subsection \<open>Notions used to state the properties\<close>

text \<open>The effects a handler added to the journal.\<close>

definition effects :: "world \<Rightarrow> world \<Rightarrow> event list" where
  "effects w w' = drop (length (journal w)) (journal w')"

text \<open>Clock readings as \<^verbatim>\<open>time.Now()\<close> gives them, with a year of four digits.\<close>

definition valid_clock :: "time \<Rightarrow> bool" where
  "valid_clock t =
     (0 \<le> Year t \<and> Year t \<le> 9999 \<and> 1 \<le> Month t \<and> Month t \<le> 12 \<and>
      1 \<le> Day t \<and> Day t \<le> 31 \<and> 0 \<le> Hour t \<and> Hour t \<le> 23 \<and>
      0 \<le> Minute t \<and> Minute t \<le> 59 \<and> 0 \<le> Second t \<and> Second t \<le> 59)"

definition is_digit :: "char \<Rightarrow> bool" where
  "is_digit c = (48 \<le> (of_char c :: nat) \<and> (of_char c :: nat) \<le> 57)"

text \<open>The number a string of decimal digits stands for.\<close>

definition atoi :: "string \<Rightarrow> int" where
  "atoi ds = foldl (\<lambda>a c. 10 * a + (int (of_char c) - 48)) 0 ds"

text \<open>The pattern \<^verbatim>\<open>YYYYMMDD-HHMMSS\<close>: eight digits, a dash, six digits.\<close>

definition matches_YYYYMMDD_HHMMSS :: "string \<Rightarrow> bool" where
  "matches_YYYYMMDD_HHMMSS str =
     (length str = 15 \<and> list_all is_digit (take 8 str) \<and> str ! 8 = CHR ''-'' \<and>
      list_all is_digit (drop 9 str))"

text \<open>The three file-system calls of a write request all succeed.\<close>

definition io_ok :: "sys \<Rightarrow> bool" where
  "io_ok s = (mkdir_result s = None \<and> open_result s = None \<and> write_result s = None)"

text \<open>Lines 93 to 95: the path of the log file of a request.\<close>

definition log_path :: "sys \<Rightarrow> string" where
  "log_path s =
     filepath_Join ''./data/log'' (Sprintf ''%s-log.txt'' [S (Format_20060102_150405 (now1 s))])"

text \<open>The state a write request renders its report from: both counters incremented.\<close>

definition counted :: "world \<Rightarrow> world" where
  "counted w = atomic_AddWriteCount (atomic_AddRequestCount w)"

text \<open>The effects on the file system, as opposed to those on the counters.\<close>

fun is_io :: "event \<Rightarrow> bool" where
  "is_io AddRequestCount = False"
| "is_io AddWriteCount = False"
| "is_io (MkdirAll p) = True"
| "is_io (OpenFile p) = True"
| "is_io (WriteString p n) = True"
| "is_io (Close p) = True"

subsection \<open>Sample inputs\<close>

text \<open>
  A fresh process on an empty volume, a \<^verbatim>\<open>POST /api/write\<close> request, and a request
  during which every call succeeds at 03:04:05 UTC on 2 January 2024.
\<close>

definition w0 :: world where
  "w0 = \<lparr>requestCount = 0, writeCount = 0, environ = Map.empty, files = Map.empty,
          handles = [], journal = []\<rparr>"

definition r0 :: request where
  "r0 = \<lparr>Method = ''POST'', URL_Path = ''/api/write'', RemoteAddr = ''10.0.0.7:51234'',
          UserAgent = ''curl/8.5.0''\<rparr>"

definition t0 :: time where
  "t0 = \<lparr>Year = 2024, Month = 1, Day = 2, Hour = 3, Minute = 4, Second = 5, ZoneOffset = 0\<rparr>"

definition s0 :: sys where
  "s0 = \<lparr>mkdir_result = None, open_result = None, write_result = None,
          hostname_result = Inr ''pod-1'', encode_result = None,
          now1 = t0, now2 = t0, now3 = t0, uptime = ''5s'', go_version = ''go1.22.0'',
          num_goroutine = 4, mem_alloc = 3145728\<rparr>"


section \<open>Auxiliary facts\<close>

subsection \<open>Formatting of numbers and clock readings\<close>

lemma Sprintf_lit_Cons: "c \<noteq> CHR ''%'' \<Longrightarrow> Sprintf (c # r) args = c # Sprintf r args"
  by (cases r) (simp_all add: Sprintf.simps)

lemma Sprintf_verb:
  "v \<noteq> CHR ''%'' \<Longrightarrow> Sprintf (CHR ''%'' # v # r) (a # as) = fmt_verb v a @ Sprintf r as"
  by (simp add: Sprintf.simps)

lemma Sprintf_lit_append:
  "CHR ''%'' \<notin> set a \<Longrightarrow> Sprintf (a @ b) args = a @ Sprintf b args"
  by (induction a) (auto simp: Sprintf_lit_Cons)

lemma Sprintf_Nil: "Sprintf [] [] = []"
  by (simp add: Sprintf.simps)

lemma Sprintf_filename: "Sprintf ''%s-log.txt'' [S x] = x @ ''-log.txt''"
  by (simp add: fmt_verb_def Sprintf_lit_Cons Sprintf_verb Sprintf_Nil)

lemma is_digit_char_of: "d < 10 \<Longrightarrow> is_digit (char_of (48 + d :: nat))"
  by (simp add: is_digit_def)

lemma utoa_digits: "list_all is_digit (utoa n)"
proof (induction n rule: utoa.induct)
  case (1 n)
  show ?case
  proof (cases "n < 10")
    case True
    then show ?thesis by (simp add: utoa.simps [of n] is_digit_char_of)
  next
    case False
    moreover have "is_digit (char_of (48 + n mod 10))"
      by (rule is_digit_char_of) simp
    ultimately show ?thesis using 1 by (simp add: utoa.simps [of n])
  qed
qed

lemma utoa_length: "0 < k \<Longrightarrow> n < 10 ^ k \<Longrightarrow> length (utoa n) \<le> k"
proof (induction n arbitrary: k rule: utoa.induct)
  case (1 n)
  show ?case
  proof (cases "n < 10")
    case True
    with 1 show ?thesis by (simp add: utoa.simps [of n])
  next
    case False
    with "1.prems" have k: "1 < k" by (cases "k = 1") auto
    then obtain j where j: "k = Suc j" "0 < j" by (cases k) auto
    with "1.prems" have "n div 10 < 10 ^ j"
      by (simp add: less_mult_imp_div_less mult.commute)
    with "1.IH" [OF False j(2)] have "length (utoa (n div 10)) \<le> j" .
    with False j show ?thesis by (simp add: utoa.simps [of n])
  qed
qed

lemma atoi_snoc: "atoi (ds @ [c]) = 10 * atoi ds + (int (of_char c) - 48)"
  by (simp add: atoi_def)

lemma atoi_utoa: "atoi (utoa n) = int n"
proof (induction n rule: utoa.induct)
  case (1 n)
  show ?case
  proof (cases "n < 10")
    case True
    then show ?thesis by (simp add: utoa.simps [of n] atoi_def)
  next
    case False
    have "(48 + n mod 10) mod 256 = 48 + n mod 10"
      by (rule mod_less) (simp add: less_le_trans [OF add_strict_left_mono [OF pos_mod_bound]])
    moreover have "10 * int (n div 10) + int (n mod 10) = int n"
      by arith
    ultimately show ?thesis using False 1
      by (simp add: utoa.simps [of n] atoi_snoc)
  qed
qed

lemma atoi_zeros: "atoi (replicate k CHR ''0'' @ ds) = atoi ds"
  by (induction k) (simp_all add: atoi_def)

lemma appendInt_nonneg:
  "0 \<le> x \<Longrightarrow> appendInt x width =
     replicate (width - length (utoa (nat x))) CHR ''0'' @ utoa (nat x)"
  by (simp add: appendInt_def Let_def)

lemma appendInt_length:
  assumes "0 \<le> x" "x < 10 ^ width" "0 < width"
  shows "length (appendInt x width) = width"
proof -
  from assms have "nat x < 10 ^ width"
    by (simp add: nat_less_iff)
  with assms(3) have "length (utoa (nat x)) \<le> width"
    by (rule utoa_length)
  with assms(1) show ?thesis
    by (simp add: appendInt_nonneg)
qed

lemma appendInt_digits: "0 \<le> x \<Longrightarrow> list_all is_digit (appendInt x width)"
  using utoa_digits [of "nat x"]
  by (auto simp: appendInt_nonneg list_all_iff is_digit_def)

lemma appendInt_atoi: "0 \<le> x \<Longrightarrow> atoi (appendInt x width) = x"
  by (simp add: appendInt_nonneg atoi_zeros atoi_utoa)

lemma digits_no_sep: "list_all is_digit ds \<Longrightarrow> CHR ''/'' \<notin> set ds"
  by (auto simp: list_all_iff is_digit_def)

lemma appendInt_no_sep: "CHR ''/'' \<notin> set (appendInt x width)"
  using digits_no_sep [OF utoa_digits]
  by (simp add: appendInt_def Let_def)

lemma Format_no_sep: "CHR ''/'' \<notin> set (Format_20060102_150405 t)"
  by (simp add: Format_20060102_150405_def appendInt_no_sep)

text \<open>The shape of the stamp of a valid clock reading, and the fields it spells.\<close>

lemma Format_stamp_shape:
  assumes "valid_clock t"
  shows "matches_YYYYMMDD_HHMMSS (Format_20060102_150405 t)"
    and "atoi (take 4 (Format_20060102_150405 t)) = Year t"
    and "atoi (take 2 (drop 4 (Format_20060102_150405 t))) = Month t"
    and "atoi (take 2 (drop 6 (Format_20060102_150405 t))) = Day t"
    and "atoi (take 2 (drop 9 (Format_20060102_150405 t))) = Hour t"
    and "atoi (take 2 (drop 11 (Format_20060102_150405 t))) = Minute t"
    and "atoi (drop 13 (Format_20060102_150405 t)) = Second t"
proof -
  define Y where "Y = appendInt (Year t) 4"
  define M where "M = appendInt (Month t) 2"
  define D where "D = appendInt (Day t) 2"
  define h where "h = appendInt (Hour t) 2"
  define m where "m = appendInt (Minute t) 2"
  define z where "z = appendInt (Second t) 2"
  from assms have len: "length Y = 4" "length M = 2" "length D = 2"
      "length h = 2" "length m = 2" "length z = 2"
    unfolding Y_def M_def D_def h_def m_def z_def valid_clock_def
    by (simp_all add: appendInt_length)
  from assms have dig: "list_all is_digit Y" "list_all is_digit M" "list_all is_digit D"
      "list_all is_digit h" "list_all is_digit m" "list_all is_digit z"
    unfolding Y_def M_def D_def h_def m_def z_def valid_clock_def
    by (simp_all add: appendInt_digits)
  from assms have val: "atoi Y = Year t" "atoi M = Month t" "atoi D = Day t"
      "atoi h = Hour t" "atoi m = Minute t" "atoi z = Second t"
    unfolding Y_def M_def D_def h_def m_def z_def valid_clock_def
    by (simp_all add: appendInt_atoi)
  have eq: "Format_20060102_150405 t = Y @ M @ D @ ''-'' @ h @ m @ z"
    by (simp add: Format_20060102_150405_def Y_def M_def D_def h_def m_def z_def)
  show "matches_YYYYMMDD_HHMMSS (Format_20060102_150405 t)"
    using len dig by (simp add: eq matches_YYYYMMDD_HHMMSS_def nth_append)
  show "atoi (take 4 (Format_20060102_150405 t)) = Year t"
    using len val by (simp add: eq)
  show "atoi (take 2 (drop 4 (Format_20060102_150405 t))) = Month t"
    using len val by (simp add: eq)
  show "atoi (take 2 (drop 6 (Format_20060102_150405 t))) = Day t"
    using len val by (simp add: eq)
  show "atoi (take 2 (drop 9 (Format_20060102_150405 t))) = Hour t"
    using len val by (simp add: eq)
  show "atoi (take 2 (drop 11 (Format_20060102_150405 t))) = Minute t"
    using len val by (simp add: eq)
  show "atoi (drop 13 (Format_20060102_150405 t)) = Second t"
    using len val by (simp add: eq)
qed

subsection \<open>The path of the log file\<close>

lemma split_sep_no_sep: "CHR ''/'' \<notin> set f \<Longrightarrow> split_sep f = [f]"
  by (induction f) auto

lemma Join_logDir:
  assumes "CHR ''/'' \<notin> set x"
  shows "filepath_Join ''./data/log'' (x @ ''-log.txt'') = ''data/log/'' @ x @ ''-log.txt''"
proof -
  let ?f = "x @ ''-log.txt''"
  from assms have "CHR ''/'' \<notin> set ?f" by simp
  then have split: "split_sep ?f = [?f]" by (rule split_sep_no_sep)
  have ne: "?f \<noteq> []" "?f \<noteq> ''.''" "?f \<noteq> ''..''"
    by (auto simp: append_eq_Cons_conv)
  have "split_sep (''./data/log/'' @ ?f) = [''.'', ''data'', ''log'', ?f]"
    using split by simp
  then have "clean_elems False [] (split_sep (''./data/log/'' @ ?f)) = [''data'', ''log'', ?f]"
    using ne by simp
  then show ?thesis
    using ne by (simp add: filepath_Join_def Clean_def)
qed

lemma log_path_eq:
  "log_path s = ''data/log/'' @ Format_20060102_150405 (now1 s) @ ''-log.txt''"
  by (simp only: log_path_def Sprintf_filename Join_logDir [OF Format_no_sep])

subsection \<open>The four ways through the write handler\<close>

lemma counted_fields:
  "requestCount (counted w) = requestCount w + 1"
  "writeCount (counted w) = writeCount w + 1"
  "environ (counted w) = environ w"
  "files (counted w) = files w"
  "handles (counted w) = handles w"
  "journal (counted w) = journal w @ [AddRequestCount, AddWriteCount]"
  by (simp_all add: counted_def atomic_AddRequestCount_def atomic_AddWriteCount_def)

lemma logContent_of_cong:
  "requestCount w = requestCount w' \<Longrightarrow> writeCount w = writeCount w' \<Longrightarrow>
   environ w = environ w' \<Longrightarrow> logContent_of w r s = logContent_of w' r s"
  by (simp add: logContent_of_def getEnvOrDefault_def os_Getenv_def)

lemma logContent_of_updates:
  "logContent_of (w\<lparr>journal := j\<rparr>) r s = logContent_of w r s"
  "logContent_of (w\<lparr>files := f\<rparr>) r s = logContent_of w r s"
  "logContent_of (w\<lparr>handles := h\<rparr>) r s = logContent_of w r s"
  "logContent_of (w\<lparr>requestCount := a, journal := j, writeCount := b\<rparr>) r s =
     logContent_of (w\<lparr>requestCount := a, writeCount := b\<rparr>) r s"
  by (rule logContent_of_cong; simp)+

lemma Sprintf_error:
  "Sprintf ''Failed to create log directory: %v'' [S e] = ''Failed to create log directory: '' @ e"
  "Sprintf ''Failed to create log file: %v'' [S e] = ''Failed to create log file: '' @ e"
  "Sprintf ''Failed to write log content: %v'' [S e] = ''Failed to write log content: '' @ e"
  by (simp_all add: fmt_verb_def Sprintf_lit_Cons Sprintf_verb Sprintf_Nil)

lemma writeHandler_mkdir_fail:
  assumes "mkdir_result s = Some e"
  shows "writeHandler w r s =
    ((counted w)\<lparr>journal := journal w @ [AddRequestCount, AddWriteCount, MkdirAll ''./data/log'']\<rparr>,
     http_Error new_response (''Failed to create log directory: '' @ e) 500)"
  using assms
  by (simp add: writeHandler_def Let_def os_MkdirAll_def counted_def
      atomic_AddRequestCount_def atomic_AddWriteCount_def Sprintf_error
      StatusInternalServerError_def)

lemma writeHandler_open_fail:
  assumes "mkdir_result s = None" "open_result s = Some e"
  shows "writeHandler w r s =
    ((counted w)\<lparr>journal := journal w @
        [AddRequestCount, AddWriteCount, MkdirAll ''./data/log'', OpenFile (log_path s)]\<rparr>,
     http_Error new_response (''Failed to create log file: '' @ e) 500)"
  using assms
  by (simp add: writeHandler_def Let_def os_MkdirAll_def os_OpenFile_def counted_def
      atomic_AddRequestCount_def atomic_AddWriteCount_def Sprintf_error
      StatusInternalServerError_def log_path_def)

lemma writeHandler_write_fail:
  assumes "mkdir_result s = None" "open_result s = None" "write_result s = Some (n, e)"
  shows "writeHandler w r s =
    ((counted w)\<lparr>files := (files w)(log_path s \<mapsto> take n (logContent_of (counted w) r s)),
       journal := journal w @
        [AddRequestCount, AddWriteCount, MkdirAll ''./data/log'', OpenFile (log_path s),
         WriteString (log_path s) (min n (length (logContent_of (counted w) r s))),
         Close (log_path s)]\<rparr>,
     http_Error new_response (''Failed to write log content: '' @ e) 500)"
  using assms
  by (simp add: writeHandler_def Let_def os_MkdirAll_def os_OpenFile_def f_WriteString_def
      f_Close_def overwrite_def counted_def logContent_of_updates
      atomic_AddRequestCount_def atomic_AddWriteCount_def Sprintf_error
      StatusInternalServerError_def log_path_def)

lemma writeHandler_ok:
  assumes "io_ok s"
  shows "writeHandler w r s =
    ((counted w)\<lparr>files := (files w)(log_path s \<mapsto> logContent_of (counted w) r s),
       journal := journal w @
        [AddRequestCount, AddWriteCount, MkdirAll ''./data/log'', OpenFile (log_path s),
         WriteString (log_path s) (length (logContent_of (counted w) r s)),
         Close (log_path s)]\<rparr>,
     w_Write new_response
       (Plain (response_of (counted w) s
                 (Sprintf ''%s-log.txt'' [S (Format_20060102_150405 (now1 s))])
                 (logContent_of (counted w) r s) ''./data/log'')))"
  using assms
  apply (simp add: writeHandler_def Let_def os_MkdirAll_def os_OpenFile_def f_WriteString_def
      f_Close_def overwrite_def counted_def logContent_of_updates io_ok_def
      atomic_AddRequestCount_def atomic_AddWriteCount_def
      log_path_def)
  apply (simp add: response_of_def)
  done

lemma fields_expand:
  "Sprintf (logContent_fields @ R)
     (S a1 # D a2 # S a3 # S a4 # S a5 # S a6 # S a7 # D a8 # S a9 # rest) =
     [CHR 0xE2, CHR 0x8F, CHR 0xB0] @ '' Timestamp:        '' @ a1 @ ''\<newline>'' @
     [CHR 0xF0, CHR 0x9F, CHR 0x94, CHR 0xA2] @ '' Operation Number: '' @ fmt_d a2 @ ''\<newline>'' @
     [CHR 0xF0, CHR 0x9F, CHR 0x93, CHR 0xA6] @ '' Application:      '' @ a3 @ ''\<newline>'' @
     [CHR 0xF0, CHR 0x9F, CHR 0x8C, CHR 0x8D] @ '' Environment:      '' @ a4 @ ''\<newline>'' @
     [CHR 0xF0, CHR 0x9F, CHR 0x8F, CHR 0xA0] @ '' Hostname:         '' @ a5 @ ''\<newline>'' @
     [CHR 0xF0, CHR 0x9F, CHR 0x8C, CHR 0x90] @ '' Client IP:        '' @ a6 @ ''\<newline>'' @
     [CHR 0xF0, CHR 0x9F, CHR 0x90, CHR 0xB9] @ '' Go Version:       '' @ a7 @ ''\<newline>'' @
     [CHR 0xF0, CHR 0x9F, CHR 0x93, CHR 0x8A] @ '' Total Requests:   '' @ fmt_d a8 @ ''\<newline>'' @
     [CHR 0xE2, CHR 0x8F, CHR 0xB1, CHR 0xEF, CHR 0xB8, CHR 0x8F] @ ''  Uptime:           '' @ a9 @ ''\<newline>'' @
     Sprintf R rest"
  by (simp add: logContent_fields_def fmt_verb_def Sprintf_lit_Cons Sprintf_verb)

lemma banner_no_verb: "CHR ''%'' \<notin> set logContent_banner"
  by (simp add: logContent_banner_def)

text \<open>The report: the banner, the nine field lines, and the rest of the format.\<close>

lemma logContent_of_layout:
  "logContent_of w r s =
     logContent_banner @
     [CHR 0xE2, CHR 0x8F, CHR 0xB0] @ '' Timestamp:        '' @ Format_RFC3339 (now2 s) @ ''\<newline>'' @
     [CHR 0xF0, CHR 0x9F, CHR 0x94, CHR 0xA2] @ '' Operation Number: '' @ fmt_d (sint (writeCount w)) @ ''\<newline>'' @
     [CHR 0xF0, CHR 0x9F, CHR 0x93, CHR 0xA6] @ '' Application:      '' @ getEnvOrDefault w ''APP_NAME'' ''OpenShift Go Monolith'' @ ''\<newline>'' @
     [CHR 0xF0, CHR 0x9F, CHR 0x8C, CHR 0x8D] @ '' Environment:      '' @ getEnvOrDefault w ''APP_ENV'' ''development'' @ ''\<newline>'' @
     [CHR 0xF0, CHR 0x9F, CHR 0x8F, CHR 0xA0] @ '' Hostname:         '' @ fst (os_Hostname s) @ ''\<newline>'' @
     [CHR 0xF0, CHR 0x9F, CHR 0x8C, CHR 0x90] @ '' Client IP:        '' @ RemoteAddr r @ ''\<newline>'' @
     [CHR 0xF0, CHR 0x9F, CHR 0x90, CHR 0xB9] @ '' Go Version:       '' @ go_version s @ ''\<newline>'' @
     [CHR 0xF0, CHR 0x9F, CHR 0x93, CHR 0x8A] @ '' Total Requests:   '' @ fmt_d (sint (requestCount w)) @ ''\<newline>'' @
     [CHR 0xE2, CHR 0x8F, CHR 0xB1, CHR 0xEF, CHR 0xB8, CHR 0x8F] @ ''  Uptime:           '' @ uptime s @ ''\<newline>'' @
     Sprintf logContent_details
       [D (sint (writeCount w)), D (num_goroutine s), D (uint (getMemoryUsageMB s)),
        S (Method r), S (URL_Path r), S (UserAgent r), S (RemoteAddr r)]"
  by (simp only: logContent_of_def logContent_format_def Let_def split_def
      Sprintf_lit_append [OF banner_no_verb] fields_expand)

lemma logContent_of_nonempty: "logContent_of w r s \<noteq> []"
  by (simp add: logContent_of_layout logContent_banner_def)

subsection \<open>Responses, sample inputs and counters\<close>

lemma status_http_Error: "status (http_Error resp msg code) = code"
  by (simp add: http_Error_def header_Set_def Let_def)

lemma status_w_Write: "status (w_Write new_response p) = 200"
  by (simp add: w_Write_def new_response_def)

lemma stamp_t0: "Format_20060102_150405 t0 = ''20240102-030405''"
  by code_simp

lemma log_path_s0: "log_path s0 = ''data/log/20240102-030405-log.txt''"
  by (simp add: log_path_eq s0_def stamp_t0)

lemma valid_clock_t0: "valid_clock t0"
  by (simp add: valid_clock_def t0_def)

lemma infoHandler_world:
  "fst (infoHandler w r s) = atomic_AddRequestCount w"
  by (simp add: infoHandler_def Let_def split: prod.splits option.splits)

lemma statsHandler_world:
  "fst (statsHandler w r s) = atomic_AddRequestCount w"
  by (simp add: statsHandler_def Let_def split: option.splits)

lemma healthHandler_world:
  "fst (healthHandler w r s) = atomic_AddRequestCount w"
  by (simp add: healthHandler_def Let_def)

lemma AddRequestCount_fields:
  "requestCount (atomic_AddRequestCount w) = requestCount w + 1"
  "writeCount (atomic_AddRequestCount w) = writeCount w"
  "effects w (atomic_AddRequestCount w) = [AddRequestCount]"
  by (simp_all add: atomic_AddRequestCount_def effects_def)

lemma writeHandler_counters:
  "requestCount (fst (writeHandler w r s)) = requestCount w + 1"
  "writeCount (fst (writeHandler w r s)) = writeCount w + 1"
  "filter (\<lambda>e. \<not> is_io e) (effects w (fst (writeHandler w r s))) = [AddRequestCount, AddWriteCount]"
proof -
  consider e where "mkdir_result s = Some e"
    | e where "mkdir_result s = None" "open_result s = Some e"
    | n e where "mkdir_result s = None" "open_result s = None" "write_result s = Some (n, e)"
    | "io_ok s"
    by (cases "mkdir_result s"; cases "open_result s"; cases "write_result s")
       (auto simp: io_ok_def)
  then have "requestCount (fst (writeHandler w r s)) = requestCount w + 1 \<and>
    writeCount (fst (writeHandler w r s)) = writeCount w + 1 \<and>
    filter (\<lambda>e. \<not> is_io e) (effects w (fst (writeHandler w r s))) = [AddRequestCount, AddWriteCount]"
    by cases
      (simp_all add: writeHandler_mkdir_fail writeHandler_open_fail writeHandler_write_fail
        writeHandler_ok counted_fields effects_def)
  then show "requestCount (fst (writeHandler w r s)) = requestCount w + 1"
    "writeCount (fst (writeHandler w r s)) = writeCount w + 1"
    "filter (\<lambda>e. \<not> is_io e) (effects w (fst (writeHandler w r s))) = [AddRequestCount, AddWriteCount]"
    by simp_all
qed

subsection \<open>What a write request does to the file system\<close>

lemma write_paths:
  obtains e where "mkdir_result s = Some e"
    | e where "mkdir_result s = None" "open_result s = Some e"
    | n e where "mkdir_result s = None" "open_result s = None" "write_result s = Some (n, e)"
    | "io_ok s"
  by (cases "mkdir_result s"; cases "open_result s"; cases "write_result s")
     (auto simp: io_ok_def)

lemma writeHandler_files_cases:
  "files (fst (writeHandler w r s)) = files w \<or>
   (\<exists>c. files (fst (writeHandler w r s)) = (files w)(log_path s \<mapsto> c))"
  by (cases s rule: write_paths)
     (auto simp: writeHandler_mkdir_fail writeHandler_open_fail writeHandler_write_fail
       writeHandler_ok counted_fields)

lemma writeHandler_opens:
  "OpenFile p \<in> set (effects w (fst (writeHandler w r s))) \<longleftrightarrow>
     mkdir_result s = None \<and> p = log_path s"
  by (cases s rule: write_paths)
     (auto simp: writeHandler_mkdir_fail writeHandler_open_fail writeHandler_write_fail
       writeHandler_ok counted_fields effects_def io_ok_def)

lemma writeHandler_mkdirs:
  "MkdirAll p \<in> set (effects w (fst (writeHandler w r s))) \<longleftrightarrow> p = ''./data/log''"
  by (cases s rule: write_paths)
     (auto simp: writeHandler_mkdir_fail writeHandler_open_fail writeHandler_write_fail
       writeHandler_ok counted_fields effects_def io_ok_def)

lemma writeHandler_files_changed:
  "files (fst (writeHandler w r s)) p \<noteq> files w p \<Longrightarrow> p = log_path s"
  using writeHandler_files_cases [of w r s] by (auto split: if_splits)

lemma writeHandler_creates:
  "mkdir_result s = None \<Longrightarrow> open_result s = None \<Longrightarrow>
     files (fst (writeHandler w r s)) (log_path s) \<noteq> None"
  by (cases s rule: write_paths)
     (simp_all add: writeHandler_write_fail writeHandler_ok)

subsection \<open>Lines of the report\<close>

lemma operation_number_line:
  "\<exists>pre post. logContent_of w r s =
     pre @ ''Operation Number: '' @ fmt_d (sint (writeCount w)) @ ''\<newline>'' @ post"
proof -
  let ?pre = "logContent_banner @
     [CHR 0xE2, CHR 0x8F, CHR 0xB0] @ '' Timestamp:        '' @ Format_RFC3339 (now2 s) @
     ''\<newline>'' @ [CHR 0xF0, CHR 0x9F, CHR 0x94, CHR 0xA2] @ '' ''"
  have "\<exists>post. logContent_of w r s =
     ?pre @ ''Operation Number: '' @ fmt_d (sint (writeCount w)) @ ''\<newline>'' @ post"
    by (simp add: logContent_of_layout)
  then show ?thesis by blast
qed

lemma hostname_line:
  "\<exists>pre post. logContent_of w r s =
     pre @ ''Hostname:         '' @ fst (os_Hostname s) @ ''\<newline>'' @ post"
proof -
  let ?pre = "logContent_banner @
     [CHR 0xE2, CHR 0x8F, CHR 0xB0] @ '' Timestamp:        '' @ Format_RFC3339 (now2 s) @ ''\<newline>'' @
     [CHR 0xF0, CHR 0x9F, CHR 0x94, CHR 0xA2] @ '' Operation Number: '' @ fmt_d (sint (writeCount w)) @ ''\<newline>'' @
     [CHR 0xF0, CHR 0x9F, CHR 0x93, CHR 0xA6] @ '' Application:      '' @ getEnvOrDefault w ''APP_NAME'' ''OpenShift Go Monolith'' @ ''\<newline>'' @
     [CHR 0xF0, CHR 0x9F, CHR 0x8C, CHR 0x8D] @ '' Environment:      '' @ getEnvOrDefault w ''APP_ENV'' ''development'' @ ''\<newline>'' @
     [CHR 0xF0, CHR 0x9F, CHR 0x8F, CHR 0xA0] @ '' ''"
  have "\<exists>post. logContent_of w r s =
     ?pre @ ''Hostname:         '' @ fst (os_Hostname s) @ ''\<newline>'' @ post"
    by (simp add: logContent_of_layout)
  then show ?thesis by blast
qed

lemma writeHandler_hostname_ignored:
  "hostname_result s = Inl e \<Longrightarrow>
     writeHandler w r s = writeHandler w r (s\<lparr>hostname_result := Inr []\<rparr>)"
  by (simp add: writeHandler_def logContent_of_def response_of_def os_Hostname_def
      os_MkdirAll_def os_OpenFile_def f_WriteString_def getMemoryUsageMB_def Let_def)

subsection \<open>Overlapping write requests\<close>

text \<open>The handler is its part up to the open followed by its part from there.\<close>

lemma writeHandler_phases:
  "writeHandler w r s =
     (case writeHandler_open w r s of
        (w1, Inl resp) \<Rightarrow> (w1, resp)
      | (w1, Inr (filename, filepath)) \<Rightarrow> writeHandler_write w1 r s filename filepath)"
  by (simp add: writeHandler_def writeHandler_open_def writeHandler_write_def Let_def
      split: prod.splits option.splits)

lemma details_expand:
  "Sprintf logContent_details [D a10, D a11, D a12, S a13, S a14, S a15, S a16] =
     (''\<newline>'' @
      ''========================================\<newline>'' @
      [CHR 0xF0, CHR 0x9F, CHR 0x93, CHR 0x9D] @ '' Log Entry Details\<newline>'' @
      ''========================================\<newline>'' @
      ''\<newline>'' @
      ''This log file was created as part of write operation #'' @ fmt_d a10 @
      ''.\<newline>'' @
      ''The application successfully wrote data to the persistent volume.\<newline>'' @
      ''No cap, this is bussin fr fr! '' @ [CHR 0xF0, CHR 0x9F, CHR 0x92, CHR 0xAF] @ ''\<newline>'' @
      ''\<newline>'' @
      [CHR 0xF0, CHR 0x9F, CHR 0x96, CHR 0xA5, CHR 0xEF, CHR 0xB8, CHR 0x8F] @ ''  System Information:\<newline>'' @
      ''- Number of Goroutines: '' @ fmt_d a11 @
      ''\<newline>'' @
      ''- Memory Allocated: '' @ fmt_d a12 @
      '' MB\<newline>'' @
      ''- Status: Running smooth like butter '' @ [CHR 0xF0, CHR 0x9F, CHR 0xA7, CHR 0x88] @ ''\<newline>'' @
      ''\<newline>'' @
      [CHR 0xF0, CHR 0x9F, CHR 0x93, CHR 0xA1] @ '' Request Information:\<newline>'' @
      ''- Method: '' @ a13 @
      ''\<newline>'' @
      ''- Path: '' @ a14 @
      ''\<newline>'' @
      ''- User Agent: '') @
     a15 @
     (''\<newline>'' @
      ''- Remote Address: '' @ a16 @
      ''\<newline>'' @
      ''\<newline>'' @
      [CHR 0xF0, CHR 0x9F, CHR 0x92, CHR 0xAD] @ '' Vibes: Immaculate '' @ [CHR 0xE2, CHR 0x9C, CHR 0xA8] @ ''\<newline>'' @
      [CHR 0xF0, CHR 0x9F, CHR 0x8E, CHR 0xAF] @ '' Status: Mission accomplished, chief! \<newline>'' @
      [CHR 0xF0, CHR 0x9F, CHR 0x94, CHR 0xA5] @ '' Performance: Absolutely slaying rn\<newline>'' @
      ''\<newline>'' @
      ''========================================\<newline>'' @
      [CHR 0xE2, CHR 0x9C, CHR 0x85] @ '' End of Log - Stay hydrated! '' @ [CHR 0xF0, CHR 0x9F, CHR 0x92, CHR 0xA7] @ ''\<newline>'' @
      ''==================================='') @
     ''=====\<newline>''"
  by (simp add: logContent_details_def fmt_verb_def Sprintf_lit_Cons Sprintf_verb Sprintf_Nil)

text \<open>The report around the user agent: what comes before it and what comes after.\<close>

lemma report_user_agent:
  "\<exists>h t. \<forall>ua. logContent_of w (r\<lparr>UserAgent := ua\<rparr>) s = h @ ua @ t @ ''=====\<newline>''"
proof -
  let ?h = "logContent_banner @
         [CHR 0xE2, CHR 0x8F, CHR 0xB0] @ '' Timestamp:        '' @ Format_RFC3339 (now2 s) @ ''\<newline>'' @
         [CHR 0xF0, CHR 0x9F, CHR 0x94, CHR 0xA2] @ '' Operation Number: '' @ fmt_d (sint (writeCount w)) @ ''\<newline>'' @
         [CHR 0xF0, CHR 0x9F, CHR 0x93, CHR 0xA6] @ '' Application:      '' @ getEnvOrDefault w ''APP_NAME'' ''OpenShift Go Monolith'' @ ''\<newline>'' @
         [CHR 0xF0, CHR 0x9F, CHR 0x8C, CHR 0x8D] @ '' Environment:      '' @ getEnvOrDefault w ''APP_ENV'' ''development'' @ ''\<newline>'' @
         [CHR 0xF0, CHR 0x9F, CHR 0x8F, CHR 0xA0] @ '' Hostname:         '' @ fst (os_Hostname s) @ ''\<newline>'' @
         [CHR 0xF0, CHR 0x9F, CHR 0x8C, CHR 0x90] @ '' Client IP:        '' @ RemoteAddr r @ ''\<newline>'' @
         [CHR 0xF0, CHR 0x9F, CHR 0x90, CHR 0xB9] @ '' Go Version:       '' @ go_version s @ ''\<newline>'' @
         [CHR 0xF0, CHR 0x9F, CHR 0x93, CHR 0x8A] @ '' Total Requests:   '' @ fmt_d (sint (requestCount w)) @ ''\<newline>'' @
         [CHR 0xE2, CHR 0x8F, CHR 0xB1, CHR 0xEF, CHR 0xB8, CHR 0x8F] @ ''  Uptime:           '' @ uptime s @ ''\<newline>'' @
         ''\<newline>'' @
         ''========================================\<newline>'' @
         [CHR 0xF0, CHR 0x9F, CHR 0x93, CHR 0x9D] @ '' Log Entry Details\<newline>'' @
         ''========================================\<newline>'' @
         ''\<newline>'' @
         ''This log file was created as part of write operation #'' @ fmt_d (sint (writeCount w)) @
         ''.\<newline>'' @
         ''The application successfully wrote data to the persistent volume.\<newline>'' @
         ''No cap, this is bussin fr fr! '' @ [CHR 0xF0, CHR 0x9F, CHR 0x92, CHR 0xAF] @ ''\<newline>'' @
         ''\<newline>'' @
         [CHR 0xF0, CHR 0x9F, CHR 0x96, CHR 0xA5, CHR 0xEF, CHR 0xB8, CHR 0x8F] @ ''  System Information:\<newline>'' @
         ''- Number of Goroutines: '' @ fmt_d (num_goroutine s) @
         ''\<newline>'' @
         ''- Memory Allocated: '' @ fmt_d (uint (getMemoryUsageMB s)) @
         '' MB\<newline>'' @
         ''- Status: Running smooth like butter '' @ [CHR 0xF0, CHR 0x9F, CHR 0xA7, CHR 0x88] @ ''\<newline>'' @
         ''\<newline>'' @
         [CHR 0xF0, CHR 0x9F, CHR 0x93, CHR 0xA1] @ '' Request Information:\<newline>'' @
         ''- Method: '' @ Method r @
         ''\<newline>'' @
         ''- Path: '' @ URL_Path r @
         ''\<newline>'' @
         ''- User Agent: ''"
  let ?t = "''\<newline>'' @
         ''- Remote Address: '' @ RemoteAddr r @
         ''\<newline>'' @
         ''\<newline>'' @
         [CHR 0xF0, CHR 0x9F, CHR 0x92, CHR 0xAD] @ '' Vibes: Immaculate '' @ [CHR 0xE2, CHR 0x9C, CHR 0xA8] @ ''\<newline>'' @
         [CHR 0xF0, CHR 0x9F, CHR 0x8E, CHR 0xAF] @ '' Status: Mission accomplished, chief! \<newline>'' @
         [CHR 0xF0, CHR 0x9F, CHR 0x94, CHR 0xA5] @ '' Performance: Absolutely slaying rn\<newline>'' @
         ''\<newline>'' @
         ''========================================\<newline>'' @
         [CHR 0xE2, CHR 0x9C, CHR 0x85] @ '' End of Log - Stay hydrated! '' @ [CHR 0xF0, CHR 0x9F, CHR 0x92, CHR 0xA7] @ ''\<newline>'' @
         ''===================================''"
  have "\<forall>ua. logContent_of w (r\<lparr>UserAgent := ua\<rparr>) s = ?h @ ua @ ?t @ ''=====\<newline>''"
    by (simp add: logContent_of_layout details_expand)
  then show ?thesis by blast
qed

lemma writeHandler_open_ok:
  assumes "mkdir_result s = None" "open_result s = None"
  shows "writeHandler_open w r s =
    ((counted w)\<lparr>files := (files w)(log_path s \<mapsto> []),
       handles := log_path s # handles w,
       journal := journal w @
        [AddRequestCount, AddWriteCount, MkdirAll ''./data/log'', OpenFile (log_path s)]\<rparr>,
     Inr (Sprintf ''%s-log.txt'' [S (Format_20060102_150405 (now1 s))], log_path s))"
  using assms
  by (simp add: writeHandler_open_def Let_def os_MkdirAll_def os_OpenFile_def counted_def
      atomic_AddRequestCount_def atomic_AddWriteCount_def log_path_def)

lemma writeHandler_write_ok:
  assumes "write_result s = None" "files w filepath = Some old"
  shows "writeHandler_write w r s filename filepath =
    (w\<lparr>files := (files w)(filepath \<mapsto>
           logContent_of w r s @ drop (length (logContent_of w r s)) old),
       handles := remove1 filepath (handles w),
       journal := journal w @
         [WriteString filepath (length (logContent_of w r s)), Close filepath]\<rparr>,
     w_Write new_response
       (Plain (response_of w s filename (logContent_of w r s) ''./data/log'')))"
  using assms
  apply (simp add: writeHandler_write_def Let_def f_WriteString_def f_Close_def overwrite_def
      logContent_of_updates)
  apply (simp add: response_of_def)
  done

text \<open>Two overlapping requests in the same second whose calls all succeed.\<close>

lemma overlap_ok:
  assumes "io_ok sA" "io_ok sB"
    and "Format_20060102_150405 (now1 sA) = Format_20060102_150405 (now1 sB)"
    and "cA = logContent_of (counted (counted w)) rA sA"
    and "cB = logContent_of (counted (counted w)) rB sB"
  shows "files (fst (overlap w rA sA rB sB)) =
           (files w)(log_path sB \<mapsto> cB @ drop (length cB) cA)"
    and "handles (fst (overlap w rA sA rB sB)) = handles w"
    and "status (fst (snd (overlap w rA sA rB sB))) = 200"
    and "status (snd (snd (overlap w rA sA rB sB))) = 200"
proof -
  let ?p = "log_path sB"
  let ?fnA = "Sprintf ''%s-log.txt'' [S (Format_20060102_150405 (now1 sA))]"
  let ?fnB = "Sprintf ''%s-log.txt'' [S (Format_20060102_150405 (now1 sB))]"
  from assms(3) have pA: "log_path sA = ?p"
    by (simp add: log_path_eq)
  from assms(1,2) have io: "mkdir_result sA = None" "open_result sA = None"
    "write_result sA = None" "mkdir_result sB = None" "open_result sB = None"
    "write_result sB = None"
    by (simp_all add: io_ok_def)
  define w1 where "w1 = fst (writeHandler_open w rA sA)"
  have o1: "writeHandler_open w rA sA = (w1, Inr (?fnA, ?p))"
    by (simp add: w1_def writeHandler_open_ok io pA)
  have f1: "files w1 = (files w)(?p \<mapsto> [])" "handles w1 = ?p # handles w"
    "requestCount w1 = requestCount w + 1" "writeCount w1 = writeCount w + 1"
    "environ w1 = environ w"
    by (simp_all add: w1_def writeHandler_open_ok io pA counted_fields)
  define w2 where "w2 = fst (writeHandler_open w1 rB sB)"
  have o2: "writeHandler_open w1 rB sB = (w2, Inr (?fnB, ?p))"
    by (simp add: w2_def writeHandler_open_ok io)
  have f2: "files w2 = (files w)(?p \<mapsto> [])" "handles w2 = ?p # ?p # handles w"
    "requestCount w2 = requestCount w + 1 + 1" "writeCount w2 = writeCount w + 1 + 1"
    "environ w2 = environ w"
    by (simp_all add: w2_def writeHandler_open_ok io counted_fields f1)
  have rA: "logContent_of w2 rA sA = cA"
    unfolding assms(4) by (rule logContent_of_cong) (simp_all add: f2 counted_fields)
  define w3 where "w3 = fst (writeHandler_write w2 rA sA ?fnA ?p)"
  have old2: "files w2 ?p = Some []" by (simp add: f2)
  note A = writeHandler_write_ok [OF io(3) old2, of rA ?fnA]
  have f3: "files w3 = (files w)(?p \<mapsto> cA)" "handles w3 = ?p # handles w"
    "requestCount w3 = requestCount w + 1 + 1" "writeCount w3 = writeCount w + 1 + 1"
    "environ w3 = environ w"
    by (simp_all add: w3_def A rA f2)
  have sA: "status (snd (writeHandler_write w2 rA sA ?fnA ?p)) = 200"
    by (simp add: A status_w_Write)
  have rB: "logContent_of w3 rB sB = cB"
    unfolding assms(5) by (rule logContent_of_cong) (simp_all add: f3 counted_fields)
  define w4 where "w4 = fst (writeHandler_write w3 rB sB ?fnB ?p)"
  have old3: "files w3 ?p = Some cA" by (simp add: f3)
  note B = writeHandler_write_ok [OF io(6) old3, of rB ?fnB]
  have f4: "files w4 = (files w)(?p \<mapsto> cB @ drop (length cB) cA)" "handles w4 = handles w"
    by (simp_all add: w4_def B rB f3)
  have sB: "status (snd (writeHandler_write w3 rB sB ?fnB ?p)) = 200"
    by (simp add: B status_w_Write)
  have "overlap w rA sA rB sB =
      (w4, snd (writeHandler_write w2 rA sA ?fnA ?p), snd (writeHandler_write w3 rB sB ?fnB ?p))"
    by (simp add: overlap_def o1 o2 w3_def w4_def split_def Let_def)
  with f4 sA sB
  show "files (fst (overlap w rA sA rB sB)) =
           (files w)(log_path sB \<mapsto> cB @ drop (length cB) cA)"
    and "handles (fst (overlap w rA sA rB sB)) = handles w"
    and "status (fst (snd (overlap w rA sA rB sB))) = 200"
    and "status (snd (snd (overlap w rA sA rB sB))) = 200"
    by simp_all
qed

text \<open>What is left of the longer report of the sample request under the shorter one.\<close>

lemma sample_reports_tail:
  "drop (length (logContent_of w (r0\<lparr>UserAgent := ''wget''\<rparr>) s))
        (logContent_of w r0 s) = ''=====\<newline>''"
proof -
  from report_user_agent [of w r0 s] obtain h t where
    eq: "\<And>ua. logContent_of w (r0\<lparr>UserAgent := ua\<rparr>) s = h @ ua @ t @ ''=====\<newline>''"
    by blast
  have "r0 = r0\<lparr>UserAgent := ''curl/8.5.0''\<rparr>"
    by (simp add: r0_def)
  then have "logContent_of w r0 s = h @ ''curl/8.5.0'' @ t @ ''=====\<newline>''"
    using eq [of "''curl/8.5.0''"] by simp
  moreover define x where "x = h @ ''curl/8.5.0'' @ t"
  ultimately have a: "logContent_of w r0 s = x @ ''=====\<newline>''"
    by simp
  have b: "length (logContent_of w (r0\<lparr>UserAgent := ''wget''\<rparr>) s) = length x"
    by (simp add: eq x_def)
  show ?thesis
    unfolding a b by simp
qed

section \<open>Properties of the service\<close>

subsection \<open>Failing write requests\<close>

text \<open>
  C1. For every write request in which the creation of the directory, the creation of the
  file or the write of the content fails, the write handler answers status 500, and the
  total-request counter and the write-operation counter have each been incremented by
  exactly one. The two increments are the first effects of the handler, in this order,
  and every effect after them is a file-system call.
\<close>

theorem write_failure_500_counters:
  assumes "mkdir_result s \<noteq> None \<or> open_result s \<noteq> None \<or> write_result s \<noteq> None"
  shows "status (snd (writeHandler w r s)) = 500 \<and>
         requestCount (fst (writeHandler w r s)) = requestCount w + 1 \<and>
         writeCount (fst (writeHandler w r s)) = writeCount w + 1 \<and>
         (\<exists>io. effects w (fst (writeHandler w r s)) = AddRequestCount # AddWriteCount # io \<and>
               io \<noteq> [] \<and> list_all is_io io)"
proof (cases s rule: write_paths)
  case (1 e)
  then show ?thesis
    by (simp add: writeHandler_mkdir_fail status_http_Error counted_fields effects_def)
next
  case (2 e)
  then show ?thesis
    by (simp add: writeHandler_open_fail status_http_Error counted_fields effects_def)
next
  case (3 n e)
  then show ?thesis
    by (simp add: writeHandler_write_fail status_http_Error counted_fields effects_def)
next
  case 4
  with assms show ?thesis by (simp add: io_ok_def)
qed

theorem write_failure_500_counters_witness:
  "status (snd (writeHandler w0 r0 (s0\<lparr>mkdir_result := Some ''permission denied''\<rparr>))) = 500 \<and>
   requestCount (fst (writeHandler w0 r0 (s0\<lparr>mkdir_result := Some ''permission denied''\<rparr>))) = 1 \<and>
   writeCount (fst (writeHandler w0 r0 (s0\<lparr>mkdir_result := Some ''permission denied''\<rparr>))) = 1 \<and>
   status (snd (writeHandler w0 r0 (s0\<lparr>open_result := Some ''read-only file system''\<rparr>))) = 500 \<and>
   requestCount (fst (writeHandler w0 r0 (s0\<lparr>open_result := Some ''read-only file system''\<rparr>))) = 1 \<and>
   writeCount (fst (writeHandler w0 r0 (s0\<lparr>open_result := Some ''read-only file system''\<rparr>))) = 1 \<and>
   status (snd (writeHandler w0 r0 (s0\<lparr>write_result := Some (10, ''no space left on device'')\<rparr>))) = 500 \<and>
   requestCount (fst (writeHandler w0 r0 (s0\<lparr>write_result := Some (10, ''no space left on device'')\<rparr>))) = 1 \<and>
   writeCount (fst (writeHandler w0 r0 (s0\<lparr>write_result := Some (10, ''no space left on device'')\<rparr>))) = 1"
  using write_failure_500_counters [of "s0\<lparr>mkdir_result := Some ''permission denied''\<rparr>" w0 r0]
    write_failure_500_counters [of "s0\<lparr>open_result := Some ''read-only file system''\<rparr>" w0 r0]
    write_failure_500_counters [of "s0\<lparr>write_result := Some (10, ''no space left on device'')\<rparr>" w0 r0]
  by (simp add: w0_def)

text \<open>
  C2, as stated, fails. A write request whose write stops with an error after ten bytes
  answers 500 and leaves a file that was not there before, holding the first ten bytes
  of the report.
\<close>

theorem failed_write_leaves_file_counterexample:
  "status (snd (writeHandler w0 r0 (s0\<lparr>write_result := Some (10, ''no space left on device'')\<rparr>))) = 500 \<and>
   files w0 ''data/log/20240102-030405-log.txt'' = None \<and>
   files (fst (writeHandler w0 r0 (s0\<lparr>write_result := Some (10, ''no space left on device'')\<rparr>)))
     ''data/log/20240102-030405-log.txt'' = Some ''==========''"
proof -
  let ?s = "s0\<lparr>write_result := Some (10, ''no space left on device'')\<rparr>"
  have io: "mkdir_result ?s = None" "open_result ?s = None"
    "write_result ?s = Some (10, ''no space left on device'')"
    by (simp_all add: s0_def)
  have path: "log_path ?s = ''data/log/20240102-030405-log.txt''"
    by (simp add: log_path_eq s0_def stamp_t0)
  have "take 10 (logContent_of (counted w0) r0 ?s) = ''==========''"
    by (simp add: logContent_of_layout logContent_banner_def)
  then show ?thesis
    by (simp add: writeHandler_write_fail [OF io] path status_http_Error w0_def)
qed

text \<open>
  C2, amended. When the three file-system calls succeed, the log file holds exactly the
  rendered report and no other file has changed. When the creation of the directory or
  the opening of the file fails, no file is created or changed. When the write fails
  after \<open>n\<close> bytes, the log file stays behind, holding the first \<open>n\<close> bytes of the
  report. On every path the set of open file handles is the one before the request: the
  handle is closed, as the last effect of the handler, exactly when it was opened.
\<close>

theorem write_filesystem_outcome:
  assumes "w' = fst (writeHandler w r s)"
  shows "(io_ok s \<longrightarrow> files w' = (files w)(log_path s \<mapsto> logContent_of (counted w) r s)) \<and>
         (mkdir_result s \<noteq> None \<or> open_result s \<noteq> None \<longrightarrow> files w' = files w) \<and>
         (\<forall>n e. mkdir_result s = None \<and> open_result s = None \<and> write_result s = Some (n, e) \<longrightarrow>
            files w' = (files w)(log_path s \<mapsto> take n (logContent_of (counted w) r s))) \<and>
         handles w' = handles w \<and>
         (Close (log_path s) \<in> set (effects w w') \<longleftrightarrow>
            mkdir_result s = None \<and> open_result s = None) \<and>
         (mkdir_result s = None \<and> open_result s = None \<longrightarrow>
            last (effects w w') = Close (log_path s))"
proof (cases s rule: write_paths)
  case (1 e)
  then show ?thesis
    by (simp add: assms writeHandler_mkdir_fail counted_fields effects_def io_ok_def)
next
  case (2 e)
  then show ?thesis
    by (simp add: assms writeHandler_open_fail counted_fields effects_def io_ok_def)
next
  case (3 n e)
  then show ?thesis
    by (simp add: assms writeHandler_write_fail counted_fields effects_def io_ok_def)
next
  case 4
  then show ?thesis
    by (simp add: assms writeHandler_ok counted_fields effects_def io_ok_def)
qed

theorem write_filesystem_outcome_witness:
  "files (fst (writeHandler w0 r0 s0)) =
     [''data/log/20240102-030405-log.txt'' \<mapsto> logContent_of (counted w0) r0 s0] \<and>
   files (fst (writeHandler w0 r0 (s0\<lparr>open_result := Some ''read-only file system''\<rparr>))) =
     Map.empty \<and>
   files (fst (writeHandler w0 r0 (s0\<lparr>write_result := Some (0, ''no space left on device'')\<rparr>))) =
     [''data/log/20240102-030405-log.txt'' \<mapsto> []] \<and>
   handles (fst (writeHandler w0 r0 s0)) = [] \<and>
   last (effects w0 (fst (writeHandler w0 r0 s0))) = Close ''data/log/20240102-030405-log.txt''"
proof -
  have p: "log_path (s0\<lparr>write_result := Some (0, ''no space left on device'')\<rparr>) =
      ''data/log/20240102-030405-log.txt''"
    by (simp add: log_path_eq s0_def stamp_t0)
  have ok: "io_ok s0" "mkdir_result s0 = None" "open_result s0 = None"
    by (simp_all add: io_ok_def s0_def)
  have w: "files w0 = Map.empty" "handles w0 = []"
    by (simp_all add: w0_def)
  show ?thesis
    using write_filesystem_outcome [where w = w0 and r = r0 and s = s0, OF refl]
      write_filesystem_outcome [where w = w0 and r = r0 and
        s = "s0\<lparr>open_result := Some ''read-only file system''\<rparr>", OF refl]
      write_filesystem_outcome [where w = w0 and r = r0 and
        s = "s0\<lparr>write_result := Some (0, ''no space left on device'')\<rparr>", OF refl]
    by (simp add: ok w p log_path_s0)
qed

subsection \<open>Successful write requests\<close>

text \<open>
  C3, as stated, fails. A write request whose directory cannot be created answers 500
  and produces no file at all.
\<close>

theorem failed_request_no_file_counterexample:
  "status (snd (writeHandler w0 r0 (s0\<lparr>mkdir_result := Some ''permission denied''\<rparr>))) = 500 \<and>
   dom (files (fst (writeHandler w0 r0 (s0\<lparr>mkdir_result := Some ''permission denied''\<rparr>)))) = {}"
proof -
  have "mkdir_result (s0\<lparr>mkdir_result := Some ''permission denied''\<rparr>) = Some ''permission denied''"
    by simp
  then show ?thesis
    by (simp add: writeHandler_mkdir_fail status_http_Error counted_fields w0_def)
qed

text \<open>
  C3, amended. Every write request whose three file-system calls succeed, at a clock
  reading with a year of four digits, changes the files at exactly one path: the file
  \<^verbatim>\<open>data/log/<stamp>-log.txt\<close>, whose stamp matches \<^verbatim>\<open>YYYYMMDD-HHMMSS\<close>, holds
  the rendered report afterwards. The report contains the line of the operation number,
  and the number on it is the value of the write-operation counter after the increment
  of this request.
\<close>

theorem successful_write_one_file:
  assumes "io_ok s" and "valid_clock (now1 s)" and "w' = fst (writeHandler w r s)"
  shows "files w' = (files w)(log_path s \<mapsto> logContent_of (counted w) r s) \<and>
         log_path s = ''data/log/'' @ Format_20060102_150405 (now1 s) @ ''-log.txt'' \<and>
         matches_YYYYMMDD_HHMMSS (Format_20060102_150405 (now1 s)) \<and>
         writeCount w' = writeCount w + 1 \<and>
         (\<exists>pre post. logContent_of (counted w) r s =
            pre @ ''Operation Number: '' @ fmt_d (sint (writeCount w')) @ ''\<newline>'' @ post)"
proof -
  from assms(1,3) have "files w' = (files w)(log_path s \<mapsto> logContent_of (counted w) r s)"
    and wc: "writeCount w' = writeCount (counted w)"
    by (simp_all add: writeHandler_ok)
  moreover note log_path_eq [of s] Format_stamp_shape(1) [OF assms(2)]
  moreover have "writeCount w' = writeCount w + 1"
    using wc by (simp add: counted_fields)
  moreover have "\<exists>pre post. logContent_of (counted w) r s =
      pre @ ''Operation Number: '' @ fmt_d (sint (writeCount w')) @ ''\<newline>'' @ post"
    unfolding wc by (rule operation_number_line)
  ultimately show ?thesis by blast
qed

theorem successful_write_one_file_witness:
  "files (fst (writeHandler w0 r0 s0)) =
     [''data/log/20240102-030405-log.txt'' \<mapsto> logContent_of (counted w0) r0 s0] \<and>
   matches_YYYYMMDD_HHMMSS ''20240102-030405'' \<and>
   writeCount (fst (writeHandler w0 r0 s0)) = 1 \<and>
   (\<exists>pre post. logContent_of (counted w0) r0 s0 =
      pre @ ''Operation Number: 1\<newline>'' @ post)"
proof -
  have one: "fmt_d 1 = ''1''" by code_simp
  have ok: "io_ok s0" by (simp add: io_ok_def s0_def)
  have clock: "valid_clock (now1 s0)" by (simp add: s0_def valid_clock_t0)
  have st: "Format_20060102_150405 (now1 s0) = ''20240102-030405''"
    by (simp add: s0_def stamp_t0)
  have w: "files w0 = Map.empty" "writeCount w0 = 0"
    by (simp_all add: w0_def)
  note T = successful_write_one_file [OF ok clock refl, of w0 r0]
  from T have f: "files (fst (writeHandler w0 r0 s0)) =
      [''data/log/20240102-030405-log.txt'' \<mapsto> logContent_of (counted w0) r0 s0]"
    by (simp add: w log_path_s0)
  from T have m: "matches_YYYYMMDD_HHMMSS ''20240102-030405''"
    by (simp add: st)
  from T have c: "writeCount (fst (writeHandler w0 r0 s0)) = 1"
    by (simp add: w)
  from T have "\<exists>pre post. logContent_of (counted w0) r0 s0 =
      pre @ ''Operation Number: '' @ fmt_d (sint (writeCount (fst (writeHandler w0 r0 s0)))) @
      ''\<newline>'' @ post"
    by blast
  then have e: "\<exists>pre post. logContent_of (counted w0) r0 s0 =
      pre @ ''Operation Number: 1\<newline>'' @ post"
    by (simp add: c one)
  from f m c e show ?thesis by blast
qed

text \<open>
  C4, as stated, fails, in two ways. After a successful write request, a second request
  in the same second whose write stops with an error before the first byte answers 500
  and leaves the file empty: what survives is not the report of the later request. And
  when two requests of the same second overlap, each opening the file before the other
  writes, both answer 200, and the file holds the report of the later request followed
  by the last six bytes of the longer report of the earlier one.
\<close>

theorem same_second_not_replaced_counterexample:
  "files (fst (writeHandler w0 r0 s0)) ''data/log/20240102-030405-log.txt'' =
     Some (logContent_of (counted w0) r0 s0) \<and>
   Format_20060102_150405 (now1 (s0\<lparr>write_result := Some (0, ''no space left on device'')\<rparr>)) =
     Format_20060102_150405 (now1 s0) \<and>
   status (snd (writeHandler (fst (writeHandler w0 r0 s0)) r0
     (s0\<lparr>write_result := Some (0, ''no space left on device'')\<rparr>))) = 500 \<and>
   files (fst (writeHandler (fst (writeHandler w0 r0 s0)) r0
     (s0\<lparr>write_result := Some (0, ''no space left on device'')\<rparr>)))
     ''data/log/20240102-030405-log.txt'' = Some [] \<and>
   logContent_of (counted (fst (writeHandler w0 r0 s0))) r0
     (s0\<lparr>write_result := Some (0, ''no space left on device'')\<rparr>) \<noteq> [] \<and>
   status (fst (snd (overlap w0 r0 s0 (r0\<lparr>UserAgent := ''wget''\<rparr>) s0))) = 200 \<and>
   status (snd (snd (overlap w0 r0 s0 (r0\<lparr>UserAgent := ''wget''\<rparr>) s0))) = 200 \<and>
   files (fst (overlap w0 r0 s0 (r0\<lparr>UserAgent := ''wget''\<rparr>) s0))
     ''data/log/20240102-030405-log.txt'' =
     Some (logContent_of (counted (counted w0)) (r0\<lparr>UserAgent := ''wget''\<rparr>) s0 @
           ''=====\<newline>'')"
proof -
  let ?s = "s0\<lparr>write_result := Some (0, ''no space left on device'')\<rparr>"
  have ok: "io_ok s0" by (simp add: io_ok_def s0_def)
  have io: "mkdir_result ?s = None" "open_result ?s = None"
    "write_result ?s = Some (0, ''no space left on device'')"
    by (simp_all add: s0_def)
  have path: "log_path ?s = ''data/log/20240102-030405-log.txt''"
    by (simp add: log_path_eq s0_def stamp_t0)
  have seq: "files (fst (writeHandler w0 r0 s0)) ''data/log/20240102-030405-log.txt'' =
     Some (logContent_of (counted w0) r0 s0) \<and>
   Format_20060102_150405 (now1 ?s) = Format_20060102_150405 (now1 s0) \<and>
   status (snd (writeHandler (fst (writeHandler w0 r0 s0)) r0 ?s)) = 500 \<and>
   files (fst (writeHandler (fst (writeHandler w0 r0 s0)) r0 ?s))
     ''data/log/20240102-030405-log.txt'' = Some [] \<and>
   logContent_of (counted (fst (writeHandler w0 r0 s0))) r0 ?s \<noteq> []"
    by (simp add: writeHandler_ok [OF ok] writeHandler_write_fail [OF io] path log_path_s0
        status_http_Error logContent_of_nonempty)
  note O = overlap_ok [OF ok ok refl refl refl, of w0 r0 "r0\<lparr>UserAgent := ''wget''\<rparr>"]
  have "files (fst (overlap w0 r0 s0 (r0\<lparr>UserAgent := ''wget''\<rparr>) s0))
     ''data/log/20240102-030405-log.txt'' =
     Some (logContent_of (counted (counted w0)) (r0\<lparr>UserAgent := ''wget''\<rparr>) s0 @
           ''=====\<newline>'')"
    by (simp add: O(1) log_path_s0 sample_reports_tail)
  with seq O(3,4) show ?thesis by simp
qed

text \<open>
  C4, amended. Take two write requests that compute the same stamp, of which the second
  has its three file-system calls succeed. When the second starts after the first has
  returned, both use the same path, the second answers 200, and afterwards the files
  differ from those before the two requests at this path only, where the file holds
  exactly the report of the second request: nothing of what the first request wrote
  remains. When instead the two overlap, the first opening the file, then the second,
  then the first writing, then the second, and the calls of the first succeed too, both
  answer 200 and the file holds the report of the second request followed by the bytes
  of the report of the first beyond its length; both reports are rendered after both
  increments. The replacement is then complete only if the first report is not the
  longer one.
\<close>

theorem same_second_overwrites:
  assumes "Format_20060102_150405 (now1 s1) = Format_20060102_150405 (now1 s2)"
    and "io_ok s2"
    and "w1 = fst (writeHandler w r1 s1)"
    and "w2 = fst (writeHandler w1 r2 s2)"
    and "c1 = logContent_of (counted (counted w)) r1 s1"
    and "c2 = logContent_of (counted (counted w)) r2 s2"
  shows "log_path s1 = log_path s2 \<and>
         status (snd (writeHandler w1 r2 s2)) = 200 \<and>
         files w2 = (files w)(log_path s2 \<mapsto> logContent_of (counted w1) r2 s2) \<and>
         (io_ok s1 \<longrightarrow>
            status (fst (snd (overlap w r1 s1 r2 s2))) = 200 \<and>
            status (snd (snd (overlap w r1 s1 r2 s2))) = 200 \<and>
            files (fst (overlap w r1 s1 r2 s2)) =
              (files w)(log_path s2 \<mapsto> c2 @ drop (length c2) c1))"
proof -
  from assms(1) have p: "log_path s1 = log_path s2"
    by (simp add: log_path_eq)
  from assms(2,4) have "files w2 = (files w1)(log_path s2 \<mapsto> logContent_of (counted w1) r2 s2)"
    by (simp add: writeHandler_ok)
  moreover from writeHandler_files_cases [of w r1 s1]
  have "files w1 = files w \<or> (\<exists>c. files w1 = (files w)(log_path s2 \<mapsto> c))"
    by (simp add: assms(3) p)
  ultimately have "files w2 = (files w)(log_path s2 \<mapsto> logContent_of (counted w1) r2 s2)"
    by auto
  moreover from assms(2) have "status (snd (writeHandler w1 r2 s2)) = 200"
    by (simp add: writeHandler_ok status_w_Write)
  moreover have "io_ok s1 \<longrightarrow>
      status (fst (snd (overlap w r1 s1 r2 s2))) = 200 \<and>
      status (snd (snd (overlap w r1 s1 r2 s2))) = 200 \<and>
      files (fst (overlap w r1 s1 r2 s2)) =
        (files w)(log_path s2 \<mapsto> c2 @ drop (length c2) c1)"
    using overlap_ok [OF _ assms(2,1,5,6)] by blast
  ultimately show ?thesis using p by simp
qed

theorem same_second_overwrites_witness:
  "files (fst (writeHandler (fst (writeHandler w0 r0 s0)) (r0\<lparr>UserAgent := ''wget''\<rparr>) s0)) =
     [''data/log/20240102-030405-log.txt'' \<mapsto>
        logContent_of (counted (fst (writeHandler w0 r0 s0))) (r0\<lparr>UserAgent := ''wget''\<rparr>) s0] \<and>
   status (snd (writeHandler (fst (writeHandler w0 r0 s0)) (r0\<lparr>UserAgent := ''wget''\<rparr>) s0)) = 200 \<and>
   files (fst (overlap w0 r0 s0 (r0\<lparr>UserAgent := ''wget''\<rparr>) s0)) =
     [''data/log/20240102-030405-log.txt'' \<mapsto>
        logContent_of (counted (counted w0)) (r0\<lparr>UserAgent := ''wget''\<rparr>) s0 @
        drop (length (logContent_of (counted (counted w0)) (r0\<lparr>UserAgent := ''wget''\<rparr>) s0))
          (logContent_of (counted (counted w0)) r0 s0)]"
proof -
  have ok: "io_ok s0" by (simp add: io_ok_def s0_def)
  have w: "files w0 = Map.empty" by (simp add: w0_def)
  show ?thesis
    using same_second_overwrites [OF refl ok refl refl refl refl, of w0 r0
        "r0\<lparr>UserAgent := ''wget''\<rparr>"] ok
    by (simp add: w log_path_s0)
qed

subsection \<open>Name and directory of the log file\<close>

text \<open>
  C5. For every write request, the only file it opens, creates or changes is
  \<^verbatim>\<open>data/log/<stamp>-log.txt\<close>, where the stamp is the reading of the clock at line
  93 in the layout \<^verbatim>\<open>20060102-150405\<close>. The file is opened whenever the directory
  could be created, and exists afterwards whenever it could be opened. For a clock
  reading with a year of four digits the stamp has the shape \<^verbatim>\<open>YYYYMMDD-HHMMSS\<close>
  and its digits spell the year, month, day, hour, minute and second of the reading.
\<close>

theorem log_file_name:
  assumes "w' = fst (writeHandler w r s)"
    and "stamp = Format_20060102_150405 (now1 s)"
  shows "(\<forall>p. OpenFile p \<in> set (effects w w') \<longrightarrow> p = ''data/log/'' @ stamp @ ''-log.txt'') \<and>
         (\<forall>p. files w' p \<noteq> files w p \<longrightarrow> p = ''data/log/'' @ stamp @ ''-log.txt'') \<and>
         (mkdir_result s = None \<longrightarrow>
            OpenFile (''data/log/'' @ stamp @ ''-log.txt'') \<in> set (effects w w')) \<and>
         (mkdir_result s = None \<and> open_result s = None \<longrightarrow>
            files w' (''data/log/'' @ stamp @ ''-log.txt'') \<noteq> None) \<and>
         (valid_clock (now1 s) \<longrightarrow>
            matches_YYYYMMDD_HHMMSS stamp \<and>
            atoi (take 4 stamp) = Year (now1 s) \<and>
            atoi (take 2 (drop 4 stamp)) = Month (now1 s) \<and>
            atoi (take 2 (drop 6 stamp)) = Day (now1 s) \<and>
            atoi (take 2 (drop 9 stamp)) = Hour (now1 s) \<and>
            atoi (take 2 (drop 11 stamp)) = Minute (now1 s) \<and>
            atoi (drop 13 stamp) = Second (now1 s))"
proof -
  have p: "''data/log/'' @ stamp @ ''-log.txt'' = log_path s"
    by (simp add: log_path_eq assms(2))
  have "\<forall>p. OpenFile p \<in> set (effects w w') \<longrightarrow> p = log_path s"
    by (simp add: assms(1) writeHandler_opens)
  moreover have "\<forall>p. files w' p \<noteq> files w p \<longrightarrow> p = log_path s"
    using writeHandler_files_changed [of w r s] by (auto simp: assms(1))
  moreover have "mkdir_result s = None \<longrightarrow> OpenFile (log_path s) \<in> set (effects w w')"
    by (simp add: assms(1) writeHandler_opens)
  moreover have "mkdir_result s = None \<and> open_result s = None \<longrightarrow> files w' (log_path s) \<noteq> None"
    by (simp add: assms(1) writeHandler_creates)
  moreover have "valid_clock (now1 s) \<longrightarrow>
            matches_YYYYMMDD_HHMMSS stamp \<and>
            atoi (take 4 stamp) = Year (now1 s) \<and>
            atoi (take 2 (drop 4 stamp)) = Month (now1 s) \<and>
            atoi (take 2 (drop 6 stamp)) = Day (now1 s) \<and>
            atoi (take 2 (drop 9 stamp)) = Hour (now1 s) \<and>
            atoi (take 2 (drop 11 stamp)) = Minute (now1 s) \<and>
            atoi (drop 13 stamp) = Second (now1 s)"
    unfolding assms(2) by (intro impI conjI Format_stamp_shape)
  ultimately show ?thesis unfolding p by blast
qed

theorem log_file_name_witness:
  "OpenFile ''data/log/20240102-030405-log.txt'' \<in> set (effects w0 (fst (writeHandler w0 r0 s0))) \<and>
   files (fst (writeHandler w0 r0 s0)) ''data/log/20240102-030405-log.txt'' \<noteq> None \<and>
   matches_YYYYMMDD_HHMMSS ''20240102-030405'' \<and>
   atoi (take 4 ''20240102-030405'') = 2024 \<and>
   atoi (drop 13 ''20240102-030405'') = 5"
proof -
  have st: "''20240102-030405'' = Format_20060102_150405 (now1 s0)"
    by (simp add: s0_def stamp_t0)
  have s: "mkdir_result s0 = None" "open_result s0 = None" "valid_clock (now1 s0)"
    "Year (now1 s0) = 2024" "Second (now1 s0) = 5"
    by (simp_all add: s0_def valid_clock_t0) (simp_all add: t0_def)
  show ?thesis
    using log_file_name [OF refl st, of w0 r0] s
    by simp
qed

text \<open>
  C6, as stated, fails. With the variable \<^verbatim>\<open>LOG_DIR\<close> set to one directory, and with
  it set to another one together with \<^verbatim>\<open>APP_ENV\<close>, the write request creates the
  same file under \<^verbatim>\<open>data/log\<close>, and no other.
\<close>

theorem log_directory_not_configured_counterexample:
  "dom (files (fst (writeHandler (w0\<lparr>environ := [''LOG_DIR'' \<mapsto> ''/var/log/app'']\<rparr>) r0 s0))) =
     {''data/log/20240102-030405-log.txt''} \<and>
   dom (files (fst (writeHandler
     (w0\<lparr>environ := [''LOG_DIR'' \<mapsto> ''/srv/volume'', ''APP_ENV'' \<mapsto> ''production'']\<rparr>) r0 s0))) =
     {''data/log/20240102-030405-log.txt''}"
proof -
  have ok: "io_ok s0" by (simp add: io_ok_def s0_def)
  show ?thesis
    by (simp add: writeHandler_ok [OF ok] log_path_s0 w0_def)
qed

text \<open>
  C6, amended. For every write request and every process environment, the directory the
  handler creates is the fixed path \<^verbatim>\<open>./data/log\<close>, and the file it opens, creates or
  changes lies directly in it: the path is \<^verbatim>\<open>data/log/\<close> followed by a name without
  a separator. The environment has no part in it.
\<close>

theorem log_directory_fixed:
  assumes "w' = fst (writeHandler (w\<lparr>environ := e\<rparr>) r s)"
    and "name = Format_20060102_150405 (now1 s) @ ''-log.txt''"
  shows "(\<forall>p. MkdirAll p \<in> set (effects w w') \<longleftrightarrow> p = ''./data/log'') \<and>
         (\<forall>p. OpenFile p \<in> set (effects w w') \<longrightarrow> p = ''data/log/'' @ name) \<and>
         (mkdir_result s = None \<longrightarrow> OpenFile (''data/log/'' @ name) \<in> set (effects w w')) \<and>
         (\<forall>p. files w' p \<noteq> files w p \<longrightarrow> p = ''data/log/'' @ name) \<and>
         CHR ''/'' \<notin> set name"
proof -
  let ?w = "w\<lparr>environ := e\<rparr>"
  have p: "''data/log/'' @ name = log_path s"
    by (simp add: log_path_eq assms(2))
  have "\<forall>p. MkdirAll p \<in> set (effects w w') \<longleftrightarrow> p = ''./data/log''"
    using writeHandler_mkdirs [of _ ?w r s] by (simp add: assms(1) effects_def)
  moreover have "\<forall>p. OpenFile p \<in> set (effects w w') \<longrightarrow> p = log_path s"
    using writeHandler_opens [of _ ?w r s] by (simp add: assms(1) effects_def)
  moreover have "mkdir_result s = None \<longrightarrow> OpenFile (log_path s) \<in> set (effects w w')"
    using writeHandler_opens [of "log_path s" ?w r s] by (simp add: assms(1) effects_def)
  moreover have "\<forall>p. files w' p \<noteq> files w p \<longrightarrow> p = log_path s"
    using writeHandler_files_changed [of ?w r s] by (auto simp: assms(1))
  moreover have "CHR ''/'' \<notin> set name"
    by (simp add: assms(2) Format_no_sep)
  ultimately show ?thesis unfolding p by blast
qed

theorem log_directory_fixed_witness:
  "MkdirAll ''./data/log'' \<in> set (effects w0
     (fst (writeHandler (w0\<lparr>environ := [''LOG_DIR'' \<mapsto> ''/var/log/app'']\<rparr>) r0 s0))) \<and>
   OpenFile (''data/log/'' @ ''20240102-030405-log.txt'') \<in> set (effects w0
     (fst (writeHandler (w0\<lparr>environ := [''LOG_DIR'' \<mapsto> ''/var/log/app'']\<rparr>) r0 s0))) \<and>
   CHR ''/'' \<notin> set ''20240102-030405-log.txt''"
proof -
  have st: "''20240102-030405-log.txt'' = Format_20060102_150405 (now1 s0) @ ''-log.txt''"
    by (simp add: s0_def stamp_t0)
  have ok: "mkdir_result s0 = None"
    by (simp add: s0_def)
  note T = log_directory_fixed [OF refl st, of w0 "[''LOG_DIR'' \<mapsto> ''/var/log/app'']" r0]
  from T have a: "MkdirAll ''./data/log'' \<in> set (effects w0
     (fst (writeHandler (w0\<lparr>environ := [''LOG_DIR'' \<mapsto> ''/var/log/app'']\<rparr>) r0 s0)))"
    by blast
  from T ok have b: "OpenFile (''data/log/'' @ ''20240102-030405-log.txt'') \<in> set (effects w0
     (fst (writeHandler (w0\<lparr>environ := [''LOG_DIR'' \<mapsto> ''/var/log/app'']\<rparr>) r0 s0)))"
    by blast
  from T have c: "CHR ''/'' \<notin> set ''20240102-030405-log.txt''"
    by blast
  from a b c show ?thesis by blast
qed

subsection \<open>Counters\<close>

text \<open>
  C7. The info, stats and health handlers add one to the total-request counter and leave
  the write-operation counter as it is; the write handler adds one to each. The only
  effects of a handler on the counters are these increments: one increment of the
  request counter, and for the write handler one increment of the write counter after
  it. The counters are 64-bit integers, so the addition is the one of \<^verbatim>\<open>int64\<close>.
\<close>

theorem handlers_counters:
  "requestCount (fst (infoHandler w r s)) = requestCount w + 1 \<and>
   writeCount (fst (infoHandler w r s)) = writeCount w \<and>
   filter (\<lambda>e. \<not> is_io e) (effects w (fst (infoHandler w r s))) = [AddRequestCount] \<and>
   requestCount (fst (statsHandler w r s)) = requestCount w + 1 \<and>
   writeCount (fst (statsHandler w r s)) = writeCount w \<and>
   filter (\<lambda>e. \<not> is_io e) (effects w (fst (statsHandler w r s))) = [AddRequestCount] \<and>
   requestCount (fst (healthHandler w r s)) = requestCount w + 1 \<and>
   writeCount (fst (healthHandler w r s)) = writeCount w \<and>
   filter (\<lambda>e. \<not> is_io e) (effects w (fst (healthHandler w r s))) = [AddRequestCount] \<and>
   requestCount (fst (writeHandler w r s)) = requestCount w + 1 \<and>
   writeCount (fst (writeHandler w r s)) = writeCount w + 1 \<and>
   filter (\<lambda>e. \<not> is_io e) (effects w (fst (writeHandler w r s))) =
     [AddRequestCount, AddWriteCount]"
  by (simp add: infoHandler_world statsHandler_world healthHandler_world
      AddRequestCount_fields writeHandler_counters)

subsection \<open>The health handler\<close>

text \<open>
  C8. Whatever the state of the process, the request and the answers of the system, the
  health handler answers status 200 with the plain-text body \<^verbatim>\<open>OK\<close>; it has no
  other outcome.
\<close>

theorem health_always_ok:
  "snd (healthHandler w r s) = \<lparr>status = 200, header = Map.empty, body = Plain ''OK''\<rparr>"
  by (simp add: healthHandler_def Let_def w_Write_def new_response_def)

subsection \<open>The environment resolver\<close>

text \<open>
  C9. For every key and default, the environment resolver returns the value of the
  variable, unchanged, when it is set and not empty, and the default when the variable
  is not set or is empty. It is a total function to strings: it has no error result.
\<close>

theorem getEnvOrDefault_resolves:
  "(\<forall>v. environ w key = Some v \<and> v \<noteq> [] \<longrightarrow> getEnvOrDefault w key d = v) \<and>
   (environ w key = None \<or> environ w key = Some [] \<longrightarrow> getEnvOrDefault w key d = d)"
  by (auto simp: getEnvOrDefault_def os_Getenv_def)

theorem getEnvOrDefault_resolves_witness:
  "getEnvOrDefault (w0\<lparr>environ := [''APP_ENV'' \<mapsto> ''production'']\<rparr>) ''APP_ENV'' ''development''
     = ''production'' \<and>
   getEnvOrDefault w0 ''APP_ENV'' ''development'' = ''development'' \<and>
   getEnvOrDefault (w0\<lparr>environ := [''APP_ENV'' \<mapsto> []]\<rparr>) ''APP_ENV'' ''development''
     = ''development''"
  using getEnvOrDefault_resolves [of "w0\<lparr>environ := [''APP_ENV'' \<mapsto> ''production'']\<rparr>"
      "''APP_ENV''" "''development''"]
    getEnvOrDefault_resolves [of w0 "''APP_ENV''" "''development''"]
    getEnvOrDefault_resolves [of "w0\<lparr>environ := [''APP_ENV'' \<mapsto> []]\<rparr>"
      "''APP_ENV''" "''development''"]
  by (simp add: w0_def)

subsection \<open>The host name in the report\<close>

text \<open>
  C10. When the lookup of the host name fails, the write handler behaves exactly as if
  the lookup had returned the empty name: the error is dropped. If the file-system calls
  succeed the request answers 200 and the report has the host-name line with nothing
  after the label. The info handler, on the same failure, reports the host name
  \<^verbatim>\<open>unknown\<close>.
\<close>

theorem write_ignores_hostname_failure:
  assumes "hostname_result s = Inl e"
  shows "writeHandler w r s = writeHandler w r (s\<lparr>hostname_result := Inr []\<rparr>) \<and>
         (io_ok s \<longrightarrow>
            status (snd (writeHandler w r s)) = 200 \<and>
            (\<exists>pre post. files (fst (writeHandler w r s)) (log_path s) =
               Some (pre @ ''Hostname:         \<newline>'' @ post))) \<and>
         (encode_result s = None \<longrightarrow>
            (\<exists>info. body (snd (infoHandler w r s)) = Json_AppInfo info \<and>
                    Hostname info = ''unknown''))"
proof -
  from assms have h: "fst (os_Hostname s) = []"
    by (simp add: os_Hostname_def)
  have "\<exists>pre post. logContent_of (counted w) r s = pre @ ''Hostname:         \<newline>'' @ post"
    using hostname_line [of "counted w" r s] by (simp add: h)
  then have "io_ok s \<longrightarrow>
      status (snd (writeHandler w r s)) = 200 \<and>
      (\<exists>pre post. files (fst (writeHandler w r s)) (log_path s) =
         Some (pre @ ''Hostname:         \<newline>'' @ post))"
    by (simp add: writeHandler_ok status_w_Write)
  moreover from assms have "encode_result s = None \<longrightarrow>
      (\<exists>info. body (snd (infoHandler w r s)) = Json_AppInfo info \<and> Hostname info = ''unknown'')"
    by (simp add: infoHandler_def os_Hostname_def Let_def w_Write_def)
  ultimately show ?thesis
    using writeHandler_hostname_ignored [OF assms] by blast
qed

theorem write_ignores_hostname_failure_witness:
  "status (snd (writeHandler w0 r0 (s0\<lparr>hostname_result := Inl ''hostname: not available''\<rparr>))) = 200 \<and>
   (\<exists>pre post. files (fst (writeHandler w0 r0 (s0\<lparr>hostname_result := Inl ''hostname: not available''\<rparr>)))
      ''data/log/20240102-030405-log.txt'' = Some (pre @ ''Hostname:         \<newline>'' @ post)) \<and>
   (\<exists>info. body (snd (infoHandler w0 r0 (s0\<lparr>hostname_result := Inl ''hostname: not available''\<rparr>))) =
      Json_AppInfo info \<and> Hostname info = ''unknown'')"
proof -
  let ?s = "s0\<lparr>hostname_result := Inl ''hostname: not available''\<rparr>"
  have h: "hostname_result ?s = Inl ''hostname: not available''" by simp
  have ok: "io_ok ?s" "encode_result ?s = None"
    by (simp_all add: io_ok_def s0_def)
  have p: "log_path ?s = ''data/log/20240102-030405-log.txt''"
    by (simp add: log_path_eq s0_def stamp_t0)
  note T = write_ignores_hostname_failure [OF h, of w0 r0]
  from T ok have a: "status (snd (writeHandler w0 r0 ?s)) = 200"
    by blast
  from T ok have "\<exists>pre post. files (fst (writeHandler w0 r0 ?s)) (log_path ?s) =
     Some (pre @ ''Hostname:         \<newline>'' @ post)"
    by blast
  then have b: "\<exists>pre post. files (fst (writeHandler w0 r0 ?s))
     ''data/log/20240102-030405-log.txt'' = Some (pre @ ''Hostname:         \<newline>'' @ post)"
    unfolding p .
  from T ok have c: "\<exists>info. body (snd (infoHandler w0 r0 ?s)) = Json_AppInfo info \<and>
     Hostname info = ''unknown''"
    by blast
  from a b c show ?thesis by blast
qed

end
